theory Spec2Isabelle
  imports Complex_Main "HOL-Library.Word"
begin

unbundle bit_operations_syntax

section \<open>Exceptions\<close>

text \<open>
  The exceptions the modelled functions can throw: a \<^verbatim>\<open>TypeError\<close> for a property read
  on \<^verbatim>\<open>undefined\<close> (an element of an empty array, a missing axis), the \<^verbatim>\<open>Error\<close>
  that \<^verbatim>\<open>Collision.create\<close> throws for a body without parent, and a
  \<^verbatim>\<open>ReferenceError\<close> for an identifier that is not bound.  A function that can throw
  returns a sum, the exception on the left.
\<close>

datatype exception = TypeError | Error | ReferenceError

section \<open>Composite: the recursive container\<close>

text \<open>
  Objects of the engine (bodies, constraints) live in a store and are referred to by
  their address; a composite holds the addresses of its direct bodies and constraints
  and owns its child composites.  The three caches of \<^verbatim>\<open>composite.cache\<close> are
  optional arrays: \<open>None\<close> is \<^verbatim>\<open>undefined\<close>.
\<close>

type_synonym addr = nat

datatype Composite = Composite
  (isModified: bool)
  (bodies: "addr list")
  (constraints: "addr list")
  (composites: "Composite list")
  (cache_allBodies: "addr list option")
  (cache_allConstraints: "addr list option")

text \<open>
  \<^verbatim>\<open>allBodies\<close> of \<^verbatim>\<open>src/Composite.ts\<close>.  A cached array is returned as it
  is (an array, even an empty one, is truthy).  Otherwise the accumulator starts as a
  copy of the direct bodies, and for every child the statement
  \<^verbatim>\<open>bodies = [...allBodies(composite.composites[i])]\<close> assigns the child's result
  to it.  The result is stored in the cache; the recursive calls fill the caches of the
  children, so the function returns the updated composite with the array.
\<close>

fun allBodies :: "Composite \<Rightarrow> addr list \<times> Composite"
  and allBodies_loop :: "addr list \<Rightarrow> Composite list \<Rightarrow> addr list \<times> Composite list" where
  "allBodies (Composite modified direct cons children cache cacheC) =
     (case cache of
        Some cached \<Rightarrow> (cached, Composite modified direct cons children cache cacheC)
      | None \<Rightarrow>
          (case allBodies_loop direct children of
             (bs, children') \<Rightarrow>
               (bs, Composite modified direct cons children' (Some bs) cacheC)))"
| "allBodies_loop acc [] = (acc, [])"
| "allBodies_loop acc (child # rest) =
     (case allBodies child of
        (r, child') \<Rightarrow>
          (case allBodies_loop r rest of
             (bs, rest') \<Rightarrow> (bs, child' # rest')))"

text \<open>
  \<^verbatim>\<open>allBodies\<close> of \<^verbatim>\<open>src/body/Composite.ts\<close>.  The loop body is
  \<^verbatim>\<open>bodies = bodies.concat(Composite.allBodies(composite.composites[i]))\<close>, and the
  module binds \<^verbatim>\<open>Composite\<close> only as an interface: the first turn of the loop
  evaluates an identifier that has no value and throws a \<^verbatim>\<open>ReferenceError\<close>.  A
  cached array is returned as it is, and a composite without children returns a copy of
  its direct bodies and caches it.
\<close>

definition body_allBodies :: "Composite \<Rightarrow> exception + (addr list \<times> Composite)" where
  "body_allBodies cm =
     (case cache_allBodies cm of
        Some cached \<Rightarrow> Inr (cached, cm)
      | None \<Rightarrow>
          if composites cm = []
          then Inr (bodies cm,
                    Composite (isModified cm) (bodies cm) (constraints cm) (composites cm)
                      (Some (bodies cm)) (cache_allConstraints cm))
          else Inl ReferenceError)"

text \<open>
  The depth-first flattening in the words of the specification: the composite's own
  direct bodies, followed in order by all bodies of each child composite, recursively.
\<close>

fun flatten_bodies :: "Composite \<Rightarrow> addr list" where
  "flatten_bodies (Composite modified direct cons children cache cacheC) =
     direct @ concat (map flatten_bodies children)"

section \<open>Numbers, vectors and vertices\<close>

text \<open>
  A JavaScript \<^verbatim>\<open>number\<close> is modelled as a real: arithmetic is exact, and the
  values \<^verbatim>\<open>NaN\<close> and \<^verbatim>\<open>\<plusminus>Infinity\<close> that IEEE-754 division by zero
  or overflow would produce are not numbers of the model.  The only places where the
  source writes \<^verbatim>\<open>Infinity\<close> itself (the start values of \<^verbatim>\<open>Bounds.update\<close> and the
  gradient of a horizontal normal in \<^verbatim>\<open>Axes.fromVertices\<close>) are modelled with
  explicit infinite values.
\<close>

record 'n Vec =
  x :: 'n
  y :: 'n

type_synonym Vector = "real Vec"

text \<open>
  A \<^verbatim>\<open>Vertex\<close> extends a \<^verbatim>\<open>Vector\<close> with its index in the vertex ring and
  the \<^verbatim>\<open>isInternal\<close> flag.  (Its back-reference \<^verbatim>\<open>body\<close> is never read by the
  functions below and is left out.)
\<close>

record Vertex = "real Vec" +
  index :: nat
  isInternal :: bool

text \<open>
  The constraint impulse of a body is a vector with an angle; its field is written
  \<open>angle'\<close>, since \<open>angle\<close> is the angle of a body.
\<close>

record VectorAngle = "real Vec" +
  angle' :: real

text \<open>The functions of \<^verbatim>\<open>Vector.ts\<close> that the modules below call.\<close>

definition Vector_magnitude :: "(real, 'm) Vec_scheme \<Rightarrow> real" where
  "Vector_magnitude vector = sqrt ((x vector * x vector) + (y vector * y vector))"



definition Vector_sub :: "(real, 'm) Vec_scheme \<Rightarrow> (real, 'k) Vec_scheme \<Rightarrow> Vector" where
  "Vector_sub vectorA vectorB = \<lparr>x = x vectorA - x vectorB, y = y vectorA - y vectorB\<rparr>"





text \<open>
  \<^verbatim>\<open>Math.atan2\<close> on reals.  The zero of the model is the positive zero, so
  \<^verbatim>\<open>atan2(0, x)\<close> is \<open>pi\<close> for negative \<open>x\<close> and \<^verbatim>\<open>atan2(0, 0)\<close> is \<open>0\<close>.
\<close>

definition Math_atan2 :: "real \<Rightarrow> real \<Rightarrow> real" where
  "Math_atan2 py px =
     (if px > 0 then arctan (py / px)
      else if px < 0 then (if py \<ge> 0 then arctan (py / px) + pi else arctan (py / px) - pi)
      else if py > 0 then pi / 2
      else if py < 0 then - (pi / 2)
      else 0)"

definition Vector_angle :: "(real, 'm) Vec_scheme \<Rightarrow> (real, 'k) Vec_scheme \<Rightarrow> real" where
  "Vector_angle vectorA vectorB = Math_atan2 (y vectorB - y vectorA) (x vectorB - x vectorA)"


definition Vector_rotateAbout :: "(real, 'm) Vec_scheme \<Rightarrow> real \<Rightarrow> (real, 'k) Vec_scheme \<Rightarrow> Vector" where
  "Vector_rotateAbout vector ang point =
     \<lparr>x = x point + ((x vector - x point) * cos ang - (y vector - y point) * sin ang),
      y = y point + ((x vector - x point) * sin ang + (y vector - y point) * cos ang)\<rparr>"

subsection \<open>Vertices\<close>

text \<open>
  \<^verbatim>\<open>Vertices.contains\<close>: \<^verbatim>\<open>vertex\<close> starts as the last element and follows
  \<^verbatim>\<open>nextVertex\<close>; the first directed edge with a positive cross term returns
  \<^verbatim>\<open>false\<close>.  On an empty array the loop does not run and the result is \<^verbatim>\<open>true\<close>.
\<close>

fun contains_loop ::
  "(real, 'm) Vec_scheme \<Rightarrow> (real, 'm) Vec_scheme list \<Rightarrow> (real, 'k) Vec_scheme \<Rightarrow> bool" where
  "contains_loop vertex [] point = True"
| "contains_loop vertex (nextVertex # rest) point =
     (if (x point - x vertex) * (y nextVertex - y vertex)
         + (y point - y vertex) * (x vertex - x nextVertex) > 0
      then False
      else contains_loop nextVertex rest point)"

definition Vertices_contains ::
  "(real, 'm) Vec_scheme list \<Rightarrow> (real, 'k) Vec_scheme \<Rightarrow> bool" where
  "Vertices_contains vertices point =
     (case vertices of [] \<Rightarrow> True | _ \<Rightarrow> contains_loop (last vertices) vertices point)"

text \<open>
  \<^verbatim>\<open>Vertices.area\<close>: the trapezoid sum with \<^verbatim>\<open>j\<close> trailing \<^verbatim>\<open>i\<close>, halved,
  and made non-negative unless \<^verbatim>\<open>signed\<close>.
\<close>

fun area_loop :: "(real, 'm) Vec_scheme \<Rightarrow> (real, 'm) Vec_scheme list \<Rightarrow> real \<Rightarrow> real" where
  "area_loop vj [] acc = acc"
| "area_loop vj (vi # rest) acc =
     area_loop vi rest (acc + (x vj - x vi) * (y vj + y vi))"

definition Vertices_area :: "(real, 'm) Vec_scheme list \<Rightarrow> bool \<Rightarrow> real" where
  "Vertices_area vertices isSigned =
     (let a = (case vertices of [] \<Rightarrow> 0 | _ \<Rightarrow> area_loop (last vertices) vertices 0) * 0.5
      in if \<not> isSigned \<and> a < 0 then - a else a)"


definition Vertices_translate ::
  "(real, 'm) Vec_scheme list \<Rightarrow> (real, 'k) Vec_scheme \<Rightarrow> real \<Rightarrow> (real, 'm) Vec_scheme list" where
  "Vertices_translate vertices vector scalar =
     (let translateX = x vector * scalar; translateY = y vector * scalar
      in map (\<lambda>v. v\<lparr>x := x v + translateX, y := y v + translateY\<rparr>) vertices)"

definition Vertices_rotate ::
  "(real, 'm) Vec_scheme list \<Rightarrow> real \<Rightarrow> (real, 'k) Vec_scheme \<Rightarrow> (real, 'm) Vec_scheme list" where
  "Vertices_rotate vertices ang point =
     (if ang = 0 then vertices
      else map (\<lambda>vertex.
             let dx = x vertex - x point; dy = y vertex - y point
             in vertex\<lparr>x := x point + (dx * cos ang - dy * sin ang),
                       y := y point + (dx * sin ang + dy * cos ang)\<rparr>) vertices)"


subsection \<open>Axes\<close>







definition Axes_rotate :: "Vector list \<Rightarrow> real \<Rightarrow> Vector list" where
  "Axes_rotate axs ang =
     (if ang = 0 then axs
      else map (\<lambda>axis. \<lparr>x = x axis * cos ang - y axis * sin ang,
                         y = x axis * sin ang + y axis * cos ang\<rparr>) axs)"

subsection \<open>Directed edges of a vertex ring\<close>

text \<open>
  The cross term that \<^verbatim>\<open>Vertices.contains\<close> tests for the directed edge from \<open>a\<close> to
  \<open>b\<close> and the point \<open>p\<close>: positive when \<open>p\<close> is strictly on the right of the edge.
\<close>

definition edge_cross ::
  "(real, 'm) Vec_scheme \<Rightarrow> (real, 'm) Vec_scheme \<Rightarrow> (real, 'k) Vec_scheme \<Rightarrow> real" where
  "edge_cross a b p = (x p - x a) * (y b - y a) + (y p - y a) * (x a - x b)"

text \<open>
  The directed edges of the ring in the order \<^verbatim>\<open>Vertices.contains\<close> visits them: from
  the last vertex to the first, then from each vertex to its successor.
\<close>

definition ring_edges :: "'a list \<Rightarrow> ('a \<times> 'a) list" where
  "ring_edges vs = (case vs of [] \<Rightarrow> [] | _ \<Rightarrow> zip (last vs # butlast vs) vs)"

text \<open>
  A vertex list is clockwise (in the engine's coordinates, where \<open>y\<close> points down) when
  its signed area, as \<^verbatim>\<open>Vertices.area(vertices, true)\<close> computes it, is positive; the
  default body \<open>(0,0), (40,0), (40,40), (0,40)\<close> is.  It is convex and clockwise when no
  vertex lies strictly on the right of a directed edge.
\<close>

definition clockwise :: "(real, 'm) Vec_scheme list \<Rightarrow> bool" where
  "clockwise vs \<longleftrightarrow> Vertices_area vs True > 0"

definition convex_clockwise :: "(real, 'm) Vec_scheme list \<Rightarrow> bool" where
  "convex_clockwise vs \<longleftrightarrow>
     (\<forall>e \<in> set (ring_edges vs). \<forall>w \<in> set vs. edge_cross (fst e) (snd e) w \<le> 0)"

text \<open>
  A point lies on the directed edge from \<open>a\<close> to \<open>b\<close> when the edge's cross term is zero
  at it and it is between the two end points.
\<close>

definition on_edge ::
  "(real, 'm) Vec_scheme \<Rightarrow> (real, 'm) Vec_scheme \<Rightarrow> (real, 'k) Vec_scheme \<Rightarrow> bool" where
  "on_edge a b p \<longleftrightarrow>
     edge_cross a b p = 0
     \<and> min (x a) (x b) \<le> x p \<and> x p \<le> max (x a) (x b)
     \<and> min (y a) (y b) \<le> y p \<and> y p \<le> max (y a) (y b)"

text \<open>Two vertex rings for concrete checks: the default square and an L-shaped ring.\<close>

definition square40 :: "Vector list" where
  "square40 = [\<lparr>x = 0, y = 0\<rparr>, \<lparr>x = 40, y = 0\<rparr>, \<lparr>x = 40, y = 40\<rparr>, \<lparr>x = 0, y = 40\<rparr>]"

definition Lshape :: "Vector list" where
  "Lshape = [\<lparr>x = 0, y = 0\<rparr>, \<lparr>x = 2, y = 0\<rparr>, \<lparr>x = 2, y = 1\<rparr>,
             \<lparr>x = 1, y = 1\<rparr>, \<lparr>x = 1, y = 2\<rparr>, \<lparr>x = 0, y = 2\<rparr>]"

subsection \<open>Edges, normals and gradients of a ring\<close>






section \<open>Bounds\<close>

text \<open>
  \<^verbatim>\<open>Bounds.update\<close> starts from \<^verbatim>\<open>min = Infinity\<close> and \<^verbatim>\<open>max = -Infinity\<close>, and on an
  empty vertex array these values stay.  The coordinates of a bounds object are
  therefore numbers extended by the two infinities, with the comparisons and the
  addition of a finite number that JavaScript gives them.
\<close>

datatype xnum = NegInfinity | Num real | PosInfinity

fun xless :: "xnum \<Rightarrow> xnum \<Rightarrow> bool" where
  "xless NegInfinity b = (b \<noteq> NegInfinity)"
| "xless (Num a) NegInfinity = False"
| "xless (Num a) (Num b) = (a < b)"
| "xless (Num a) PosInfinity = True"
| "xless PosInfinity b = False"

definition xle :: "xnum \<Rightarrow> xnum \<Rightarrow> bool" where
  "xle a b \<longleftrightarrow> xless a b \<or> a = b"

fun xadd :: "xnum \<Rightarrow> real \<Rightarrow> xnum" where
  "xadd NegInfinity r = NegInfinity"
| "xadd (Num a) r = Num (a + r)"
| "xadd PosInfinity r = PosInfinity"

record Bounds =
  min' :: "xnum Vec"
  max' :: "xnum Vec"

text \<open>The body of the loop of \<^verbatim>\<open>Bounds.update\<close>: one vertex widens the bounds.\<close>

definition Bounds_update_vertex :: "(real, 'm) Vec_scheme \<Rightarrow> Bounds \<Rightarrow> Bounds" where
  "Bounds_update_vertex vertex b =
     (let b = (if xless (x (max' b)) (Num (x vertex))
               then b\<lparr>max' := (max' b)\<lparr>x := Num (x vertex)\<rparr>\<rparr> else b);
          b = (if xless (Num (x vertex)) (x (min' b))
               then b\<lparr>min' := (min' b)\<lparr>x := Num (x vertex)\<rparr>\<rparr> else b);
          b = (if xless (y (max' b)) (Num (y vertex))
               then b\<lparr>max' := (max' b)\<lparr>y := Num (y vertex)\<rparr>\<rparr> else b);
          b = (if xless (Num (y vertex)) (y (min' b))
               then b\<lparr>min' := (min' b)\<lparr>y := Num (y vertex)\<rparr>\<rparr> else b)
      in b)"

text \<open>
  \<^verbatim>\<open>Bounds.update(bounds, vertices, velocity)\<close> overwrites all four coordinates, so its
  result does not depend on the old bounds: the model returns the new bounds.  The
  velocity is optional.
\<close>

definition Bounds_update :: "(real, 'm) Vec_scheme list \<Rightarrow> Vector option \<Rightarrow> Bounds" where
  "Bounds_update vertices velocity =
     (let b1 = fold Bounds_update_vertex vertices
                 \<lparr>min' = \<lparr>x = PosInfinity, y = PosInfinity\<rparr>,
                  max' = \<lparr>x = NegInfinity, y = NegInfinity\<rparr>\<rparr>
      in case velocity of
           None \<Rightarrow> b1
         | Some vel \<Rightarrow>
             (let b2 = (if x vel > 0
                        then b1\<lparr>max' := (max' b1)\<lparr>x := xadd (x (max' b1)) (x vel)\<rparr>\<rparr>
                        else b1\<lparr>min' := (min' b1)\<lparr>x := xadd (x (min' b1)) (x vel)\<rparr>\<rparr>)
              in if y vel > 0
                 then b2\<lparr>max' := (max' b2)\<lparr>y := xadd (y (max' b2)) (y vel)\<rparr>\<rparr>
                 else b2\<lparr>min' := (min' b2)\<lparr>y := xadd (y (min' b2)) (y vel)\<rparr>\<rparr>))"

definition Bounds_contains :: "Bounds \<Rightarrow> (real, 'm) Vec_scheme \<Rightarrow> bool" where
  "Bounds_contains bounds point \<longleftrightarrow>
     xle (x (min' bounds)) (Num (x point)) \<and> xle (Num (x point)) (x (max' bounds))
     \<and> xle (y (min' bounds)) (Num (y point)) \<and> xle (Num (y point)) (y (max' bounds))"

definition Bounds_overlaps :: "Bounds \<Rightarrow> Bounds \<Rightarrow> bool" where
  "Bounds_overlaps boundsA boundsB \<longleftrightarrow>
     xle (x (min' boundsA)) (x (max' boundsB)) \<and> xle (x (min' boundsB)) (x (max' boundsA))
     \<and> xle (y (min' boundsB)) (y (max' boundsA)) \<and> xle (y (min' boundsA)) (y (max' boundsB))"

definition Bounds_translate :: "Bounds \<Rightarrow> (real, 'm) Vec_scheme \<Rightarrow> Bounds" where
  "Bounds_translate bounds vector =
     \<lparr>min' = \<lparr>x = xadd (x (min' bounds)) (x vector), y = xadd (y (min' bounds)) (y vector)\<rparr>,
      max' = \<lparr>x = xadd (x (max' bounds)) (x vector), y = xadd (y (max' bounds)) (y vector)\<rparr>\<rparr>"

section \<open>Body\<close>

text \<open>
  Bodies are objects with identity: a body is in its own \<^verbatim>\<open>parts\<close> array, the parts
  of a compound body point back to it, and collisions, pairs and constraints refer to
  bodies.  A store maps every address to the body that lives there, and the engine's
  functions take and return the store.  A field that holds a \<^verbatim>\<open>Vector\<close>, a bounds
  object or an array of vertices is owned by its body: the model keeps it by value.
  The fields that only the renderer and the event system read (\<^verbatim>\<open>render\<close>,
  \<^verbatim>\<open>events\<close>, \<^verbatim>\<open>label\<close>, \<^verbatim>\<open>chamfer\<close>, \<^verbatim>\<open>circleRadius\<close>) and the snapshot
  \<^verbatim>\<open>_original\<close> are left out.
\<close>

record CollisionFilter =
  category :: "32 word"
  mask' :: "32 word"
  group' :: int

record Body =
  id' :: nat
  parts :: "addr list"
  parent :: "addr option"
  angle :: real
  vertices :: "Vertex list"
  position :: Vector
  force :: Vector
  torque :: real
  positionImpulse :: Vector
  constraintImpulse :: VectorAngle
  totalContacts :: real
  speed :: real
  angularSpeed :: real
  velocity :: Vector
  angularVelocity :: real
  isSensor :: bool
  isStatic :: bool
  isSleeping :: bool
  sleepCounter :: real
  motion :: real
  sleepThreshold :: real
  density :: real
  restitution :: real
  friction :: real
  frictionStatic :: real
  frictionAir :: real
  collisionFilter :: CollisionFilter
  slop :: real
  timeScale :: real
  bounds :: Bounds
  positionPrev :: Vector
  anglePrev :: real
  axes :: "Vector list"
  area :: real
  mass :: real
  inverseMass :: real
  inertia :: real
  inverseInertia :: real
  deltaTime :: real

type_synonym store = "addr \<Rightarrow> Body"

text \<open>The constant \<^verbatim>\<open>_baseDelta\<close> of \<^verbatim>\<open>Common.ts\<close>.\<close>

definition baseDelta :: real where
  "baseDelta = 1000 / 60"

subsection \<open>Body.setPosition\<close>

text \<open>
  \<^verbatim>\<open>setPosition(body, position, updateVelocity)\<close>.  The loop runs over the addresses in
  \<^verbatim>\<open>body.parts\<close>; every iteration reads the part and the body from the current store,
  so a body that is one of its own parts is changed through the loop, as in the source.
\<close>

definition setPosition_part :: "addr \<Rightarrow> Vector \<Rightarrow> addr \<Rightarrow> store \<Rightarrow> store" where
  "setPosition_part b delta p s =
     (let part = s p;
          vs = Vertices_translate (vertices part) delta 1
      in s(p := part\<lparr>position := \<lparr>x = x (position part) + x delta,
                                     y = y (position part) + y delta\<rparr>,
                       vertices := vs,
                       bounds := Bounds_update vs (Some (velocity (s b)))\<rparr>))"

definition Body_setPosition :: "store \<Rightarrow> addr \<Rightarrow> Vector \<Rightarrow> bool \<Rightarrow> store" where
  "Body_setPosition s b pos updateVelocity =
     (let body = s b;
          delta = Vector_sub pos (position body);
          s1 = (if updateVelocity
                then s(b := body\<lparr>positionPrev := \<lparr>x = x (position body), y = y (position body)\<rparr>,
                                 velocity := \<lparr>x = x delta, y = y delta\<rparr>,
                                 speed := Vector_magnitude delta\<rparr>)
                else s(b := body\<lparr>positionPrev := \<lparr>x = x (positionPrev body) + x delta,
                                                    y = y (positionPrev body) + y delta\<rparr>\<rparr>))
      in fold (setPosition_part b delta) (parts (s1 b)) s1)"

subsection \<open>Body.update\<close>

text \<open>
  \<^verbatim>\<open>update(body, deltaTime)\<close>.  The argument is optional (\<open>None\<close> is
  \<^verbatim>\<open>undefined\<close>), \<^verbatim>\<open>_timeCorrection\<close> is the constant \<^verbatim>\<open>true\<close>, and
  \<^verbatim>\<open>body.deltaTime || deltaTime\<close> takes the argument's step when the stored one is zero.
\<close>

definition update_part :: "addr \<Rightarrow> nat \<times> addr \<Rightarrow> store \<Rightarrow> store" where
  "update_part b ip s =
     (let i = fst ip; p = snd ip;
          s = s(p := (s p)\<lparr>vertices := Vertices_translate (vertices (s p)) (velocity (s b)) 1\<rparr>);
          s = (if i > 0
               then s(p := (s p)\<lparr>position := \<lparr>x = x (position (s p)) + x (velocity (s b)),
                                                 y = y (position (s p)) + y (velocity (s b))\<rparr>\<rparr>)
               else s);
          s = (if angularVelocity (s b) \<noteq> 0
               then (let s = s(p := (s p)\<lparr>vertices :=
                                  Vertices_rotate (vertices (s p)) (angularVelocity (s b)) (position (s b))\<rparr>);
                         s = s(p := (s p)\<lparr>axes := Axes_rotate (axes (s p)) (angularVelocity (s b))\<rparr>)
                     in if i > 0
                        then s(p := (s p)\<lparr>position :=
                                  Vector_rotateAbout (position (s p)) (angularVelocity (s b)) (position (s b))\<rparr>)
                        else s)
               else s)
      in s(p := (s p)\<lparr>bounds := Bounds_update (vertices (s p)) (Some (velocity (s b)))\<rparr>))"

definition Body_update :: "store \<Rightarrow> addr \<Rightarrow> real option \<Rightarrow> store" where
  "Body_update s b deltaTimeArg =
     (let body = s b;
          dt = (case deltaTimeArg of Some d \<Rightarrow> d | None \<Rightarrow> 1000 / 60) * timeScale body;
          deltaTimeSquared = dt * dt;
          correction = dt / (if deltaTime body = 0 then dt else deltaTime body);
          frictionAirF = 1 - frictionAir body * (dt / baseDelta);
          velocityPrevX = (x (position body) - x (positionPrev body)) * correction;
          velocityPrevY = (y (position body) - y (positionPrev body)) * correction;
          vel = \<lparr>x = (velocityPrevX * frictionAirF) + (x (force body) / mass body) * deltaTimeSquared,
                 y = (velocityPrevY * frictionAirF) + (y (force body) / mass body) * deltaTimeSquared\<rparr>;
          angVel = ((angle body - anglePrev body) * frictionAirF * correction)
                   + (torque body / inertia body) * deltaTimeSquared;
          s1 = s(b := body\<lparr>velocity := vel,
                            positionPrev := \<lparr>x = x (position body), y = y (position body)\<rparr>,
                            position := \<lparr>x = x (position body) + x vel, y = y (position body) + y vel\<rparr>,
                            deltaTime := dt,
                            angularVelocity := angVel,
                            anglePrev := angle body,
                            angle := angle body + angVel\<rparr>)
      in fold (update_part b) (enumerate 0 (parts (s1 b))) s1)"

subsection \<open>Resolver.postSolvePosition\<close>

definition positionWarming :: real where
  "positionWarming = 0.8"

definition postSolvePosition_part :: "addr \<Rightarrow> Vector \<Rightarrow> addr \<Rightarrow> store \<Rightarrow> store" where
  "postSolvePosition_part b impulse p s =
     (let part = s p;
          vs = Vertices_translate (vertices part) impulse 1
      in s(p := part\<lparr>vertices := vs,
                       bounds := Bounds_update vs (Some (velocity (s b))),
                       position := \<lparr>x = x (position part) + x impulse,
                                     y = y (position part) + y impulse\<rparr>\<rparr>))"

definition postSolvePosition_body :: "addr \<Rightarrow> store \<Rightarrow> store" where
  "postSolvePosition_body b s =
     (let impulse = positionImpulse (s b);
          positionImpulseX = x impulse;
          positionImpulseY = y impulse;
          s = s(b := (s b)\<lparr>totalContacts := 0\<rparr>)
      in if positionImpulseX \<noteq> 0 \<or> positionImpulseY \<noteq> 0
         then
           (let s = fold (postSolvePosition_part b impulse) (parts (s b)) s;
                s = s(b := (s b)\<lparr>positionPrev := \<lparr>x = x (positionPrev (s b)) + positionImpulseX,
                                                  y = y (positionPrev (s b)) + positionImpulseY\<rparr>\<rparr>)
            in if positionImpulseX * x (velocity (s b)) + positionImpulseY * y (velocity (s b)) < 0
               then s(b := (s b)\<lparr>positionImpulse := \<lparr>x = 0, y = 0\<rparr>\<rparr>)
               else s(b := (s b)\<lparr>positionImpulse :=
                          \<lparr>x = x (positionImpulse (s b)) * positionWarming,
                           y = y (positionImpulse (s b)) * positionWarming\<rparr>\<rparr>))
         else s)"

definition Resolver_postSolvePosition :: "store \<Rightarrow> addr list \<Rightarrow> store" where
  "Resolver_postSolvePosition s bodyList = fold postSolvePosition_body bodyList s"

subsection \<open>Bodies for concrete checks\<close>

text \<open>
  \<^verbatim>\<open>Vertices.create\<close> gives every point its index in the ring.  The body \<open>box40 a\<close> is
  the 40 by 40 box of the default vertices at address \<open>a\<close> in the form that the
  module documents for a body (the one that \<^verbatim>\<open>Body.setVertices\<close> and
  \<^verbatim>\<open>Body.setParts\<close> are written to establish): centred at \<open>(20, 20)\<close>, its only
  part and its parent are itself, and area, mass, inertia, axes and bounds are the ones
  of the square.  In \<open>boxStore\<close> such a box lives at every address.
\<close>

definition Vertices_create :: "(real, 'm) Vec_scheme list \<Rightarrow> Vertex list" where
  "Vertices_create points =
     map (\<lambda>ip. \<lparr>x = x (snd ip), y = y (snd ip), index = fst ip, isInternal = False\<rparr>)
       (enumerate 0 points)"

definition box40 :: "addr \<Rightarrow> Body" where
  "box40 a =
     \<lparr>id' = a, parts = [a], parent = Some a, angle = 0,
      vertices = Vertices_create square40,
      position = \<lparr>x = 20, y = 20\<rparr>,
      force = \<lparr>x = 0, y = 0\<rparr>, torque = 0,
      positionImpulse = \<lparr>x = 0, y = 0\<rparr>,
      constraintImpulse = \<lparr>x = 0, y = 0, angle' = 0\<rparr>,
      totalContacts = 0, speed = 0, angularSpeed = 0,
      velocity = \<lparr>x = 0, y = 0\<rparr>, angularVelocity = 0,
      isSensor = False, isStatic = False, isSleeping = False,
      sleepCounter = 0, motion = 0, sleepThreshold = 60,
      density = 0.001, restitution = 0, friction = 0.1, frictionStatic = 0.5,
      frictionAir = 0.01,
      collisionFilter = \<lparr>category = 1, mask' = 0xFFFFFFFF, group' = 0\<rparr>,
      slop = 0.05, timeScale = 1,
      bounds = \<lparr>min' = \<lparr>x = Num 0, y = Num 0\<rparr>, max' = \<lparr>x = Num 40, y = Num 40\<rparr>\<rparr>,
      positionPrev = \<lparr>x = 20, y = 20\<rparr>, anglePrev = 0,
      axes = [\<lparr>x = 0, y = 1\<rparr>, \<lparr>x = - 1, y = 0\<rparr>],
      area = 1600, mass = 1.6, inverseMass = 0.625,
      inertia = 5120 / 3, inverseInertia = 3 / 5120,
      deltaTime = 1000 / 60\<rparr>"

definition boxStore :: store where
  "boxStore = box40"

text \<open>
  Two stores for \<^verbatim>\<open>Body.update\<close>: in both the box at address 0 has moved one unit
  along \<open>x\<close> in its last step and has no air friction; in the second its stored
  \<^verbatim>\<open>deltaTime\<close> is zero.
\<close>

definition movingStore :: store where
  "movingStore =
     boxStore(0 := (box40 0)\<lparr>positionPrev := \<lparr>x = 19, y = 20\<rparr>, frictionAir := 0\<rparr>)"

definition restartedStore :: store where
  "restartedStore =
     boxStore(0 := (box40 0)\<lparr>positionPrev := \<lparr>x = 19, y = 20\<rparr>, frictionAir := 0,
                               deltaTime := 0\<rparr>)"

text \<open>A store where the box of address 0 carries the position impulse \<open>(3, 4)\<close>.\<close>

definition impulseStore :: store where
  "impulseStore = boxStore(0 := (box40 0)\<lparr>positionImpulse := \<lparr>x = 3, y = 4\<rparr>\<rparr>)"

subsection \<open>Bodies as Body.create builds them\<close>

text \<open>
  \<^verbatim>\<open>Body.create\<close> spreads the module-level object \<^verbatim>\<open>defaults\<close> and the options
  into a new object and calls \<^verbatim>\<open>_initProperties\<close>.  The id of \<^verbatim>\<open>defaults\<close> is the
  one number that \<^verbatim>\<open>nextId()\<close> returned when the module was loaded, so every body
  gets it.  \<^verbatim>\<open>defaults.parts\<close> is \<^verbatim>\<open>[]\<close>, which \<^verbatim>\<open>body.parts ?? [body]\<close> keeps,
  and \<^verbatim>\<open>defaults.positionPrev\<close> is the origin, which
  \<^verbatim>\<open>body.positionPrev ?? { ...body.position }\<close> keeps; the parent becomes the body
  itself.  The setter calls in \<^verbatim>\<open>set\<close> are commented out, so axes stay empty and area,
  mass and inertia stay 0; the vertices are rotated by the angle (not at all for angle
  0) and the bounds are updated from them.

  \<open>Bodies_rectangle a x0 y0 w h\<close> is the body that \<^verbatim>\<open>Bodies.rectangle(x, y, width,
  height)\<close> returns, at address \<open>a\<close>: the options are the position and the vertices of
  the path from the origin.  The nested objects that the spread shares between bodies
  are separate values in the model.
\<close>

definition defaults_id :: nat where
  "defaults_id = 1"

definition Bodies_rectangle :: "addr \<Rightarrow> real \<Rightarrow> real \<Rightarrow> real \<Rightarrow> real \<Rightarrow> Body" where
  "Bodies_rectangle a x0 y0 w h =
     (let vs = Vertices_create [\<lparr>x = 0, y = 0\<rparr>, \<lparr>x = w, y = 0\<rparr>, \<lparr>x = w, y = h\<rparr>, \<lparr>x = 0, y = h\<rparr>];
          vs = Vertices_rotate vs 0 \<lparr>x = x0, y = y0\<rparr>
      in \<lparr>id' = defaults_id, parts = [], parent = Some a, angle = 0,
          vertices = vs,
          position = \<lparr>x = x0, y = y0\<rparr>,
          force = \<lparr>x = 0, y = 0\<rparr>, torque = 0,
          positionImpulse = \<lparr>x = 0, y = 0\<rparr>,
          constraintImpulse = \<lparr>x = 0, y = 0, angle' = 0\<rparr>,
          totalContacts = 0, speed = 0, angularSpeed = 0,
          velocity = \<lparr>x = 0, y = 0\<rparr>, angularVelocity = 0,
          isSensor = False, isStatic = False, isSleeping = False,
          sleepCounter = 0, motion = 0, sleepThreshold = 60,
          density = 0.001, restitution = 0, friction = 0.1, frictionStatic = 0.5,
          frictionAir = 0.01,
          collisionFilter = \<lparr>category = 1, mask' = 0xFFFFFFFF, group' = 0\<rparr>,
          slop = 0.05, timeScale = 1,
          bounds = Bounds_update vs (Some \<lparr>x = 0, y = 0\<rparr>),
          positionPrev = \<lparr>x = 0, y = 0\<rparr>, anglePrev = 0,
          axes = [], area = 0, mass = 0, inverseMass = 0, inertia = 0, inverseInertia = 0,
          deltaTime = 1000 / 60\<rparr>)"

text \<open>
  A store with the body of \<^verbatim>\<open>Bodies.rectangle(20, 20, 40, 40)\<close> at every address, and
  the store where the body at address 0 has the position impulse \<open>(3, 4)\<close> that a
  collision has left on it.
\<close>

definition createdStore :: store where
  "createdStore = (\<lambda>a. Bodies_rectangle a 20 20 40 40)"

definition createdImpulseStore :: store where
  "createdImpulseStore =
     createdStore(0 := (createdStore 0)\<lparr>positionImpulse := \<lparr>x = 3, y = 4\<rparr>\<rparr>)"

subsection \<open>A body moved by a vector\<close>

text \<open>
  What a loop over the parts does to one part when it moves it by \<open>d\<close>: the position and
  the vertices are translated and the bounds are recomputed with the velocity hint of
  the owning body.  \<open>shifted\<close> moves the previous position.
\<close>

definition translated :: "Vector \<Rightarrow> Vector \<Rightarrow> Body \<Rightarrow> Body" where
  "translated d vel body =
     body\<lparr>position := \<lparr>x = x (position body) + x d, y = y (position body) + y d\<rparr>,
          vertices := Vertices_translate (vertices body) d 1,
          bounds := Bounds_update (Vertices_translate (vertices body) d 1) (Some vel)\<rparr>"

definition shifted :: "Vector \<Rightarrow> Body \<Rightarrow> Body" where
  "shifted d body =
     body\<lparr>positionPrev := \<lparr>x = x (positionPrev body) + x d, y = y (positionPrev body) + y d\<rparr>\<rparr>"

text \<open>
  The impulse that \<^verbatim>\<open>Resolver.postSolvePosition\<close> leaves cached on a body that it has
  moved: zero when the body has velocity against it, and damped otherwise.
\<close>

definition warmed :: "Body \<Rightarrow> Vector" where
  "warmed body =
     (if x (positionImpulse body) * x (velocity body) + y (positionImpulse body) * y (velocity body) < 0
      then \<lparr>x = 0, y = 0\<rparr>
      else \<lparr>x = x (positionImpulse body) * positionWarming,
            y = y (positionImpulse body) * positionWarming\<rparr>)"

text \<open>
  The invariant of the data model on bounds, for a body and its parts: the bounds of a
  part are the bounds of its vertices extended along the velocity of the body.
\<close>

definition bounds_in_sync :: "store \<Rightarrow> addr \<Rightarrow> bool" where
  "bounds_in_sync s b \<longleftrightarrow>
     (\<forall>p \<in> set (parts (s b)). bounds (s p) = Bounds_update (vertices (s p)) (Some (velocity (s b))))"

section \<open>Collision: the narrow phase\<close>

text \<open>
  A vertex object is referred to by the address of the body that owns the array and its
  position in the array: the supports of a collision and the vertices of contacts are
  such references.
\<close>

type_synonym vertex_ref = "addr \<times> nat"

definition deref :: "store \<Rightarrow> vertex_ref \<Rightarrow> Vertex" where
  "deref s r = vertices (s (fst r)) ! snd r"

text \<open>The pair record refers to its collision and the collision to its pair by the pair's id.\<close>

type_synonym pair_id = "nat \<times> nat"

record Collision =
  pair :: "pair_id option"
  collided :: bool
  bodyA :: addr
  bodyB :: addr
  parentA :: addr
  parentB :: addr
  depth :: real
  normal :: Vector
  tangent :: Vector
  penetration :: Vector
  supports :: "vertex_ref option list"
  supportCount :: nat

record Contact =
  vertex :: "vertex_ref option"
  normalImpulse :: real
  tangentImpulse :: real

record Pair =
  pair_id :: pair_id
  pair_bodyA :: addr
  pair_bodyB :: addr
  collision :: Collision
  contacts :: "Contact list"
  contactCount :: nat
  separation :: real
  isActive :: bool
  pair_isSensor :: bool
  timeCreated :: real
  timeUpdated :: real
  pair_inverseMass :: real
  pair_friction :: real
  pair_frictionStatic :: real
  pair_restitution :: real
  pair_slop :: real

record Pairs =
  table :: "pair_id \<rightharpoonup> Pair"
  list :: "pair_id list"
  collisionStart :: "pair_id list"
  collisionActive :: "pair_id list"
  collisionEnd :: "pair_id list"

text \<open>
  \<^verbatim>\<open>Pair.id\<close> builds the string of the two ids in base 36, the smaller first, with a
  colon between them; the model keeps the ordered pair of ids.
\<close>

definition Pair_id :: "Body \<Rightarrow> Body \<Rightarrow> pair_id" where
  "Pair_id A B = (if id' A < id' B then (id' A, id' B) else (id' B, id' A))"

record Overlap =
  overlap :: real
  axis :: "Vector option"

definition MAX_VALUE :: real where
  "MAX_VALUE = (2 ^ 1024 - 2 ^ 971)"

text \<open>
  The projection interval of a vertex array on an axis, as the two inner loops of
  \<^verbatim>\<open>_overlapAxes\<close> compute it: minimum and maximum start at the first vertex, and a dot
  product that is not above the maximum is compared with the minimum.
\<close>

definition project_vertices :: "Vertex \<Rightarrow> Vertex list \<Rightarrow> real \<Rightarrow> real \<Rightarrow> real \<times> real" where
  "project_vertices v0 rest axisX axisY =
     fold (\<lambda>v mm. let d = x v * axisX + y v * axisY
                    in if d > snd mm then (fst mm, d)
                       else if d < fst mm then (d, snd mm)
                       else mm)
       rest (x v0 * axisX + y v0 * axisY, x v0 * axisX + y v0 * axisY)"

text \<open>
  The loop of \<^verbatim>\<open>_overlapAxes\<close> over the axes from index \<open>i\<close>, with the smallest
  overlap so far and the number of its axis; it stops at the first overlap that is not
  positive.
\<close>

fun overlapAxes_loop ::
  "Vertex list \<Rightarrow> Vertex list \<Rightarrow> Vector list \<Rightarrow> nat \<Rightarrow> real \<Rightarrow> nat \<Rightarrow> real \<times> nat" where
  "overlapAxes_loop verticesA verticesB [] i overlapMin overlapAxisNumber =
     (overlapMin, overlapAxisNumber)"
| "overlapAxes_loop verticesA verticesB (ax # rest) i overlapMin overlapAxisNumber =
     (let mmA = project_vertices (hd verticesA) (tl verticesA) (x ax) (y ax);
          mmB = project_vertices (hd verticesB) (tl verticesB) (x ax) (y ax);
          overlapAB = snd mmA - fst mmB;
          overlapBA = snd mmB - fst mmA;
          ov = (if overlapAB < overlapBA then overlapAB else overlapBA)
      in if ov < overlapMin
         then (if ov \<le> 0 then (ov, i)
               else overlapAxes_loop verticesA verticesB rest (i + 1) ov i)
         else overlapAxes_loop verticesA verticesB rest (i + 1) overlapMin overlapAxisNumber)"

text \<open>
  \<^verbatim>\<open>_overlapAxes\<close> reads the first vertex of both arrays before the loop, so an empty
  array is a \<^verbatim>\<open>TypeError\<close>.  The axis of the result is \<^verbatim>\<open>undefined\<close> when the array
  of axes is empty.
\<close>

definition overlapAxes :: "Vertex list \<Rightarrow> Vertex list \<Rightarrow> Vector list \<Rightarrow> exception + Overlap" where
  "overlapAxes verticesA verticesB axs =
     (if verticesA = [] \<or> verticesB = [] then Inl TypeError
      else (case overlapAxes_loop verticesA verticesB axs 0 MAX_VALUE 0 of
              (overlapMin, overlapAxisNumber) \<Rightarrow>
                Inr \<lparr>overlap = overlapMin,
                     axis = (if overlapAxisNumber < length axs
                             then Some (axs ! overlapAxisNumber) else None)\<rparr>))"

text \<open>
  \<^verbatim>\<open>_findSupports(bodyA, bodyB, normal, direction)\<close>: the vertex of \<open>bodyB\<close> that is
  nearest along the normal, and of its two ring neighbours (found through the
  \<^verbatim>\<open>index\<close> field of the vertex) the nearer one.  The function fills the array
  \<^verbatim>\<open>_supports\<close> of the module and returns it; the model returns its two entries.
\<close>

definition support_distance :: "real \<Rightarrow> real \<Rightarrow> Vector \<Rightarrow> Vertex \<Rightarrow> real" where
  "support_distance normalX normalY positionA v =
     normalX * (x positionA - x v) + normalY * (y positionA - y v)"

definition findSupports ::
  "store \<Rightarrow> addr \<Rightarrow> addr \<Rightarrow> Vector \<Rightarrow> real \<Rightarrow> exception + vertex_ref list" where
  "findSupports s A B nrm direction =
     (let vs = vertices (s B);
          verticesLength = length vs;
          normalX = x nrm * direction;
          normalY = y nrm * direction;
          dist = support_distance normalX normalY (position (s A))
      in if vs = [] then Inl TypeError
         else
           (let best = fold (\<lambda>j nb. if dist (vs ! j) < fst nb then (dist (vs ! j), j) else nb)
                         [1 ..< verticesLength] (dist (vs ! 0), 0);
                vertexA = snd best;
                vertexC = (verticesLength + index (vs ! vertexA) - 1) mod verticesLength;
                vertexB = (index (vs ! vertexA) + 1) mod verticesLength
            in if dist (vs ! vertexB) < dist (vs ! vertexC)
               then Inr [(B, vertexA), (B, vertexB)]
               else Inr [(B, vertexA), (B, vertexC)]))"

text \<open>
  \<^verbatim>\<open>Collision.create\<close> throws when one of the bodies has no parent; the record it
  returns takes the parents from the bodies.
\<close>

definition Collision_create :: "store \<Rightarrow> addr \<Rightarrow> addr \<Rightarrow> exception + Collision" where
  "Collision_create s A B =
     (case (parent (s A), parent (s B)) of
        (Some pA, Some pB) \<Rightarrow>
          Inr \<lparr>pair = None, collided = False, bodyA = A, bodyB = B, parentA = pA, parentB = pB,
               depth = 0, normal = \<lparr>x = 0, y = 0\<rparr>, tangent = \<lparr>x = 0, y = 0\<rparr>,
               penetration = \<lparr>x = 0, y = 0\<rparr>, supports = [None, None], supportCount = 0\<rparr>
      | _ \<Rightarrow> Inl Error)"

text \<open>
  The collision record that \<^verbatim>\<open>collides\<close> writes to: the record of the pair when the
  table of pairs has one for the two bodies, and otherwise a new record with the body of
  the smaller id as \<^verbatim>\<open>bodyA\<close>.  After creation the parents are read again from the
  ordered bodies (their \<^verbatim>\<open>parent\<close> may be \<^verbatim>\<open>undefined\<close> only if \<^verbatim>\<open>create\<close> has
  thrown, so they are defined here).
\<close>

definition collision_record :: "store \<Rightarrow> addr \<Rightarrow> addr \<Rightarrow> Pairs option \<Rightarrow> exception + Collision" where
  "collision_record s A B prs =
     (case (case prs of None \<Rightarrow> None | Some ps \<Rightarrow> table ps (Pair_id (s A) (s B))) of
        Some pr \<Rightarrow> Inr (collision pr)
      | None \<Rightarrow>
          (case Collision_create s A B of
             Inl e \<Rightarrow> Inl e
           | Inr c \<Rightarrow>
               (let first = (if id' (s A) < id' (s B) then A else B);
                    second = (if id' (s A) < id' (s B) then B else A)
                in Inr (c\<lparr>collided := True, bodyA := first, bodyB := second,
                          parentA := the (parent (s first)),
                          parentB := the (parent (s second))\<rparr>))))"

text \<open>
  Writing an element of a JavaScript array: an index beyond the end extends the array,
  the elements between are \<^verbatim>\<open>undefined\<close>.
\<close>

definition array_set :: "'a option list \<Rightarrow> nat \<Rightarrow> 'a \<Rightarrow> 'a option list" where
  "array_set xs i v =
     (if i < length xs then xs[i := Some v]
      else xs @ replicate (i - length xs) None @ [Some v])"

text \<open>
  The statement \<^verbatim>\<open>supports[supportCount++] = v\<close> on the array of supports and the
  count.
\<close>

definition push_support ::
  "vertex_ref option list \<times> nat \<Rightarrow> vertex_ref \<Rightarrow> vertex_ref option list \<times> nat" where
  "push_support sc v = (array_set (fst sc) (snd sc) v, snd sc + 1)"

text \<open>
  The supports of \<open>B\<close> that are inside \<open>A\<close>: both candidates are tested.  The supports of
  \<open>A\<close> that are inside \<open>B\<close>: the second candidate is tested only while fewer than two
  supports are found.
\<close>

definition supports_inside_A ::
  "store \<Rightarrow> addr \<Rightarrow> vertex_ref list \<Rightarrow> vertex_ref option list \<times> nat
     \<Rightarrow> vertex_ref option list \<times> nat" where
  "supports_inside_A s A supportsB sc =
     (let sc = (if Vertices_contains (vertices (s A)) (deref s (supportsB ! 0))
                then push_support sc (supportsB ! 0) else sc)
      in if Vertices_contains (vertices (s A)) (deref s (supportsB ! 1))
         then push_support sc (supportsB ! 1) else sc)"

definition supports_inside_B ::
  "store \<Rightarrow> addr \<Rightarrow> vertex_ref list \<Rightarrow> vertex_ref option list \<times> nat
     \<Rightarrow> vertex_ref option list \<times> nat" where
  "supports_inside_B s B supportsA sc =
     (let sc = (if Vertices_contains (vertices (s B)) (deref s (supportsA ! 0))
                then push_support sc (supportsA ! 0) else sc)
      in if snd sc < 2 \<and> Vertices_contains (vertices (s B)) (deref s (supportsA ! 1))
         then push_support sc (supportsA ! 1) else sc)"

text \<open>
  The support points of \<^verbatim>\<open>Collision.collides\<close>, for the ordered bodies \<open>A\<close> and \<open>B\<close> of
  the collision record and its normal.  \<open>sups\<close> is the array \<^verbatim>\<open>collision.supports\<close> and
  the result is the array with the new \<^verbatim>\<open>supportCount\<close>.

  Both calls of \<^verbatim>\<open>_findSupports\<close> return the one array \<^verbatim>\<open>_supports\<close> of the module:
  \<^verbatim>\<open>supportsB\<close> and \<^verbatim>\<open>supportsA\<close> are the same object.  The second call is made
  whenever fewer than two supports were found, and it overwrites the entries that
  \<^verbatim>\<open>supportsB\<close> points to.  In the model \<open>supports_array\<close> is the content of that array
  at the point where the source reads \<^verbatim>\<open>supportsB[0]\<close> for the last time.
\<close>

definition collides_supports ::
  "store \<Rightarrow> addr \<Rightarrow> addr \<Rightarrow> Vector \<Rightarrow> vertex_ref option list
     \<Rightarrow> exception + (vertex_ref option list \<times> nat)" where
  "collides_supports s A B nrm sups =
     (case findSupports s A B nrm 1 of
        Inl e \<Rightarrow> Inl e
      | Inr supportsB \<Rightarrow>
          (let sc = supports_inside_A s A supportsB (sups, 0)
           in if snd sc < 2
              then
                (case findSupports s B A nrm (- 1) of
                   Inl e \<Rightarrow> Inl e
                 | Inr supportsA \<Rightarrow>
                     (let supports_array = supportsA;
                          sc = supports_inside_B s B supportsA sc
                      in if snd sc = 0
                         then Inr (push_support sc (supports_array ! 0))
                         else Inr sc))
              else Inr sc))"

text \<open>
  \<^verbatim>\<open>Collision.collides(bodyA, bodyB, pairs)\<close>.  The result is \<open>None\<close> for \<^verbatim>\<open>null\<close>.
  A record that is taken from the table of pairs is changed in place, so the function
  returns the table with the record of that pair replaced.
\<close>

definition Collision_collides ::
  "store \<Rightarrow> addr \<Rightarrow> addr \<Rightarrow> Pairs option \<Rightarrow> exception + (Collision option \<times> Pairs option)" where
  "Collision_collides s A B prs =
     (case overlapAxes (vertices (s A)) (vertices (s B)) (axes (s A)) of
        Inl e \<Rightarrow> Inl e
      | Inr overlapAB \<Rightarrow>
          if overlap overlapAB \<le> 0 then Inr (None, prs)
          else
            (case overlapAxes (vertices (s B)) (vertices (s A)) (axes (s B)) of
               Inl e \<Rightarrow> Inl e
             | Inr overlapBA \<Rightarrow>
                 if overlap overlapBA \<le> 0 then Inr (None, prs)
                 else
                   (case collision_record s A B prs of
                      Inl e \<Rightarrow> Inl e
                    | Inr c \<Rightarrow>
                        (let A' = bodyA c;
                             B' = bodyB c;
                             minOverlap = (if overlap overlapAB < overlap overlapBA
                                           then overlapAB else overlapBA)
                         in case axis minOverlap of
                              None \<Rightarrow> Inl TypeError
                            | Some minAxis \<Rightarrow>
                                (let dpt = overlap minOverlap;
                                     deltaX = x (position (s B')) - x (position (s A'));
                                     deltaY = y (position (s B')) - y (position (s A'));
                                     flip = (x minAxis * deltaX + y minAxis * deltaY \<ge> 0);
                                     normalX = (if flip then - x minAxis else x minAxis);
                                     normalY = (if flip then - y minAxis else y minAxis);
                                     nrm = \<lparr>x = normalX, y = normalY\<rparr>
                                 in case collides_supports s A' B' nrm (supports c) of
                                      Inl e \<Rightarrow> Inl e
                                    | Inr (sups, cnt) \<Rightarrow>
                                        (let c' = c\<lparr>normal := nrm,
                                                    tangent := \<lparr>x = - normalY, y = normalX\<rparr>,
                                                    penetration := \<lparr>x = normalX * dpt, y = normalY * dpt\<rparr>,
                                                    depth := dpt,
                                                    supports := sups,
                                                    supportCount := cnt\<rparr>;
                                             prs' = (case prs of
                                                       None \<Rightarrow> None
                                                     | Some ps \<Rightarrow>
                                                         (case table ps (Pair_id (s A) (s B)) of
                                                            None \<Rightarrow> Some ps
                                                          | Some pr \<Rightarrow>
                                                              Some (ps\<lparr>table := (table ps)
                                                                (Pair_id (s A) (s B) \<mapsto> pr\<lparr>collision := c'\<rparr>)\<rparr>)))
                                         in Inr (Some c', prs')))))))"

text \<open>The first \<open>cnt\<close> entries of an array of supports are set.\<close>

definition supports_set :: "vertex_ref option list \<Rightarrow> nat \<Rightarrow> bool" where
  "supports_set sups cnt \<longleftrightarrow> (\<forall>i < cnt. i < length sups \<and> sups ! i \<noteq> None)"

text \<open>
  Three bars: a wide one at address 2, a tall one at address 3 that crosses it, and a
  second tall one at address 4 that crosses it further left.  The crossing bars overlap
  and no vertex of one is inside the other.  The bars 2 and 4 are in the same negative
  group.
\<close>

definition bar :: "addr \<Rightarrow> Vector list \<Rightarrow> Vector \<Rightarrow> int \<Rightarrow> Body" where
  "bar a vs pos grp =
     (box40 a)\<lparr>vertices := Vertices_create vs, position := pos, positionPrev := pos,
                bounds := Bounds_update (Vertices_create vs) (Some \<lparr>x = 0, y = 0\<rparr>),
                collisionFilter := \<lparr>category = 1, mask' = 0xFFFFFFFF, group' = grp\<rparr>\<rparr>"

definition crossStore :: store where
  "crossStore = boxStore
     (2 := bar 2 [\<lparr>x = 0, y = 40\<rparr>, \<lparr>x = 100, y = 40\<rparr>, \<lparr>x = 100, y = 60\<rparr>, \<lparr>x = 0, y = 60\<rparr>]
             \<lparr>x = 50, y = 50\<rparr> (- 1),
      3 := bar 3 [\<lparr>x = 45, y = 0\<rparr>, \<lparr>x = 65, y = 0\<rparr>, \<lparr>x = 65, y = 100\<rparr>, \<lparr>x = 45, y = 100\<rparr>]
             \<lparr>x = 55, y = 50\<rparr> 0,
      4 := bar 4 [\<lparr>x = 5, y = 0\<rparr>, \<lparr>x = 25, y = 0\<rparr>, \<lparr>x = 25, y = 100\<rparr>, \<lparr>x = 5, y = 100\<rparr>]
             \<lparr>x = 15, y = 50\<rparr> (- 1))"

section \<open>Detector: the broad phase\<close>


definition canCollide :: "CollisionFilter \<Rightarrow> CollisionFilter \<Rightarrow> bool" where
  "canCollide filterA filterB =
     (if group' filterA = group' filterB \<and> group' filterA \<noteq> 0
      then group' filterA > 0
      else (mask' filterA AND category filterB) \<noteq> 0 \<and> (mask' filterB AND category filterA) \<noteq> 0)"











subsection \<open>Collisions and the bodies they involve\<close>



definition admitted :: "store \<Rightarrow> Collision \<Rightarrow> bool" where
  "admitted s c \<longleftrightarrow>
     canCollide (collisionFilter (s (parentA c))) (collisionFilter (s (parentB c)))"

definition pairs_admitted :: "store \<Rightarrow> Pairs option \<Rightarrow> bool" where
  "pairs_admitted s prs \<longleftrightarrow>
     (case prs of
        None \<Rightarrow> True
      | Some ps \<Rightarrow> (\<forall>k pr. table ps k = Some pr \<longrightarrow> admitted s (collision pr)))"


text \<open>A detector over the three bars, and the collision of bars 2 and 3.\<close>

definition cross23 :: Collision where
  "cross23 = \<lparr>pair = None, collided = True, bodyA = 2, bodyB = 3, parentA = 2, parentB = 3,
                depth = 55, normal = \<lparr>x = - 1, y = 0\<rparr>, tangent = \<lparr>x = 0, y = - 1\<rparr>,
                penetration = \<lparr>x = - 55, y = 0\<rparr>,
                supports = [Some (2, 1), None], supportCount = 1\<rparr>"



section \<open>Query\<close>

text \<open>
  \<^verbatim>\<open>Query.collides(body, bodies)\<close>: for every body of the list whose bounds overlap the
  bounds of \<^verbatim>\<open>body\<close>, the parts from \<^verbatim>\<open>partsAStart\<close> on are tested in order, and the
  first collision found is pushed (\<^verbatim>\<open>break\<close>).  \<^verbatim>\<open>Collision.collides\<close> is called
  without a table of pairs.
\<close>

fun Query_collides_parts :: "store \<Rightarrow> addr \<Rightarrow> addr list \<Rightarrow> exception + Collision option" where
  "Query_collides_parts s body [] = Inr None"
| "Query_collides_parts s body (part # rest) =
     (if Bounds_overlaps (bounds (s part)) (bounds (s body))
      then (case Collision_collides s part body None of
              Inl e \<Rightarrow> Inl e
            | Inr (Some found, prs) \<Rightarrow> Inr (Some found)
            | Inr (None, prs) \<Rightarrow> Query_collides_parts s body rest)
      else Query_collides_parts s body rest)"

fun Query_collides_loop ::
  "store \<Rightarrow> addr \<Rightarrow> addr list \<Rightarrow> Collision list \<Rightarrow> exception + Collision list" where
  "Query_collides_loop s body [] collisions = Inr collisions"
| "Query_collides_loop s body (bA # rest) collisions =
     (let partsALength = length (parts (s bA));
          partsAStart = (if partsALength = 1 then 0 else 1)
      in if Bounds_overlaps (bounds (s bA)) (bounds (s body))
         then (case Query_collides_parts s body (drop partsAStart (parts (s bA))) of
                 Inl e \<Rightarrow> Inl e
               | Inr (Some found) \<Rightarrow> Query_collides_loop s body rest (collisions @ [found])
               | Inr None \<Rightarrow> Query_collides_loop s body rest collisions)
         else Query_collides_loop s body rest collisions)"

definition Query_collides :: "store \<Rightarrow> addr \<Rightarrow> addr list \<Rightarrow> exception + Collision list" where
  "Query_collides s body bodyList = Query_collides_loop s body bodyList []"

text \<open>
  \<^verbatim>\<open>Query.ray(bodies, startPoint, endPoint, rayWidth)\<close>.  The ray is made by
  \<^verbatim>\<open>Bodies.rectangle(rayX, rayY, rayLength, rayWidth, { angle: rayAngle })\<close>, which
  allocates a body; \<open>bodiesModule\<close> is the value that the identifier \<^verbatim>\<open>Bodies\<close> has
  in the scope of the module, \<open>None\<close> when the identifier is not bound: evaluating it
  then throws a \<^verbatim>\<open>ReferenceError\<close>.  The width is optional (\<open>None\<close> for
  \<^verbatim>\<open>undefined\<close>), and \<^verbatim>\<open>rayWidth || 1e-100\<close> replaces zero as well.  The collisions
  returned carry the added property \<^verbatim>\<open>body\<close>.
\<close>

type_synonym rectangle_factory = "store \<Rightarrow> real \<Rightarrow> real \<Rightarrow> real \<Rightarrow> real \<Rightarrow> real \<Rightarrow> addr \<times> store"

record RayCollision = Collision +
  body' :: addr

definition ray_collision :: "Collision \<Rightarrow> RayCollision" where
  "ray_collision found =
     Collision.extend (found\<lparr>bodyB := bodyA found\<rparr>) (RayCollision.fields (bodyA found))"

definition Query_ray ::
  "rectangle_factory option \<Rightarrow> store \<Rightarrow> addr list \<Rightarrow> Vector \<Rightarrow> Vector \<Rightarrow> real option
     \<Rightarrow> exception + (RayCollision list \<times> store)" where
  "Query_ray bodiesModule s bodyList startPoint endPoint rayWidth =
     (let rayWidth = (case rayWidth of None \<Rightarrow> 1 / 10 ^ 100
                      | Some w \<Rightarrow> if w = 0 then 1 / 10 ^ 100 else w);
          rayAngle = Vector_angle startPoint endPoint;
          rayLength = Vector_magnitude (Vector_sub startPoint endPoint);
          rayX = (x endPoint + x startPoint) * 0.5;
          rayY = (y endPoint + y startPoint) * 0.5
      in case bodiesModule of
           None \<Rightarrow> Inl ReferenceError
         | Some rectangle \<Rightarrow>
             (let (ray, s) = rectangle s rayX rayY rayLength rayWidth rayAngle
              in case Query_collides s ray bodyList of
                   Inl e \<Rightarrow> Inl e
                 | Inr collisions \<Rightarrow> Inr (map ray_collision collisions, s)))"

text \<open>
  The scope of \<^verbatim>\<open>Query.ts\<close>: the module imports the type \<^verbatim>\<open>Body\<close>, and values from
  \<^verbatim>\<open>Bounds\<close>, \<^verbatim>\<open>Vector\<close>, \<^verbatim>\<open>Vertices\<close> and \<^verbatim>\<open>Collision\<close>, and declares
  \<^verbatim>\<open>collides\<close>, \<^verbatim>\<open>ray\<close>, \<^verbatim>\<open>region\<close> and \<^verbatim>\<open>point\<close>.  Nothing binds \<^verbatim>\<open>Bodies\<close>.
\<close>

definition Query_scope_Bodies :: "rectangle_factory option" where
  "Query_scope_Bodies = None"

text \<open>
  The scene of the ray cast: a box of 50 by 50 centred at (400, 300), at address 2.
\<close>

definition rayStore :: store where
  "rayStore = boxStore
     (2 := bar 2 [\<lparr>x = 375, y = 275\<rparr>, \<lparr>x = 425, y = 275\<rparr>, \<lparr>x = 425, y = 325\<rparr>, \<lparr>x = 375, y = 325\<rparr>]
             \<lparr>x = 400, y = 300\<rparr> 0)"

text \<open>
  The scene with a thin rectangle along the ray from (0, 300) to (800, 300) at address 3,
  of width \<open>1e-100\<close>, and the collision of the box with it.
\<close>

definition rayScene :: store where
  "rayScene = rayStore
     (3 := bar 3 [\<lparr>x = 0, y = 300 - 1 / (2 * 10 ^ 100)\<rparr>, \<lparr>x = 800, y = 300 - 1 / (2 * 10 ^ 100)\<rparr>,
                  \<lparr>x = 800, y = 300 + 1 / (2 * 10 ^ 100)\<rparr>, \<lparr>x = 0, y = 300 + 1 / (2 * 10 ^ 100)\<rparr>]
             \<lparr>x = 400, y = 300\<rparr> 0)"

definition rayHit :: Collision where
  "rayHit = \<lparr>pair = None, collided = True, bodyA = 2, bodyB = 3, parentA = 2, parentB = 3,
                depth = 25 + 1 / (2 * 10 ^ 100), normal = \<lparr>x = 0, y = - 1\<rparr>, tangent = \<lparr>x = 1, y = 0\<rparr>,
                penetration = \<lparr>x = 0, y = - (25 + 1 / (2 * 10 ^ 100))\<rparr>,
                supports = [Some (2, 2), None], supportCount = 1\<rparr>"

section \<open>The engine\<close>

subsection \<open>Velocities of a body\<close>






subsection \<open>Sleeping\<close>

text \<open>
  The bodies of the model carry no event handlers (\<^verbatim>\<open>events\<close> is \<^verbatim>\<open>undefined\<close> in the
  defaults of a body), so the two calls of \<^verbatim>\<open>trigger\<close> in \<^verbatim>\<open>Sleeping.set\<close> do nothing.
\<close>

definition motionWakeThreshold :: real where
  "motionWakeThreshold = 0.18"






subsection \<open>The loops of the engine over the bodies\<close>









subsection \<open>Constraint\<close>






















subsection \<open>Pair and Pairs\<close>

text \<open>
  A pair object is referred to by its id, and the table of pairs holds the objects; the
  arrays \<^verbatim>\<open>list\<close>, \<^verbatim>\<open>collisionStart\<close>, \<^verbatim>\<open>collisionActive\<close> and
  \<^verbatim>\<open>collisionEnd\<close> hold ids.  An id that has no entry in the table reads as
  \<^verbatim>\<open>undefined\<close>.  An element of an array of supports or contacts that is not there
  reads as \<^verbatim>\<open>undefined\<close> too.
\<close>

definition support_at :: "vertex_ref option list \<Rightarrow> nat \<Rightarrow> vertex_ref option" where
  "support_at sups i = (if i < length sups then sups ! i else None)"

definition Pair_update :: "store \<Rightarrow> Pair \<Rightarrow> Collision \<Rightarrow> real \<Rightarrow> exception + Pair" where
  "Pair_update s pr col timestamp =
     (let pA = s (parentA col);
          pB = s (parentB col);
          pr = pr\<lparr>isActive := True,
                   timeUpdated := timestamp,
                   collision := col\<lparr>pair := Some (pair_id pr)\<rparr>,
                   separation := depth col,
                   pair_inverseMass := inverseMass pA + inverseMass pB,
                   pair_friction := (if friction pA < friction pB then friction pA else friction pB),
                   pair_frictionStatic := (if frictionStatic pA > frictionStatic pB
                                           then frictionStatic pA else frictionStatic pB),
                   pair_restitution := (if restitution pA > restitution pB
                                        then restitution pA else restitution pB),
                   pair_slop := (if slop pA > slop pB then slop pA else slop pB),
                   contactCount := supportCount col\<rparr>;
          supportA = support_at (supports col) 0;
          supportB = support_at (supports col) 1
      in if length (contacts pr) < 2 then Inl TypeError
         else
           (let contactA = contacts pr ! 0;
                contactB = contacts pr ! 1;
                swap = (vertex contactB = supportA \<or> vertex contactA = supportB);
                first = (if swap then contactB else contactA);
                second = (if swap then contactA else contactB)
            in Inr (pr\<lparr>contacts := (contacts pr)[0 := first\<lparr>vertex := supportA\<rparr>,
                                                   1 := second\<lparr>vertex := supportB\<rparr>]\<rparr>)))"

definition Pair_create :: "store \<Rightarrow> Collision \<Rightarrow> real \<Rightarrow> exception + Pair" where
  "Pair_create s col timestamp =
     Pair_update s
       \<lparr>pair_id = Pair_id (s (bodyA col)) (s (bodyB col)),
        pair_bodyA = bodyA col,
        pair_bodyB = bodyB col,
        collision = col,
        contacts = [\<lparr>vertex = None, normalImpulse = 0, tangentImpulse = 0\<rparr>,
                    \<lparr>vertex = None, normalImpulse = 0, tangentImpulse = 0\<rparr>],
        contactCount = 0,
        separation = 0,
        isActive = True,
        pair_isSensor = (isSensor (s (bodyA col)) \<or> isSensor (s (bodyB col))),
        timeCreated = timestamp,
        timeUpdated = timestamp,
        pair_inverseMass = 0,
        pair_friction = 0,
        pair_frictionStatic = 0,
        pair_restitution = 0,
        pair_slop = 0\<rparr>
       col timestamp"

definition Pair_setActive :: "Pair \<Rightarrow> bool \<Rightarrow> real \<Rightarrow> Pair" where
  "Pair_setActive pr active timestamp =
     (if active then pr\<lparr>isActive := True, timeUpdated := timestamp\<rparr>
      else pr\<lparr>isActive := False, contactCount := 0\<rparr>)"

text \<open>
  \<^verbatim>\<open>Pairs.update(pairs, collisions, timestamp)\<close>.  The first loop goes over the
  collisions: \<open>collisions_step\<close> returns the structure with the collision as the pair
  holds it (its \<^verbatim>\<open>pair\<close> is set).  A collision whose pair has no entry in the table is
  treated as one without a pair: the collisions that the detector returns are new, or
  taken from the table.  The second loop goes over the list and compacts it in place.
  The three arrays of events are written from index 0 and cut to the number written.
\<close>

definition collisions_step ::
  "store \<Rightarrow> real \<Rightarrow> Collision \<Rightarrow> Pairs \<times> Collision list \<Rightarrow> exception + (Pairs \<times> Collision list)" where
  "collisions_step s timestamp col st =
     (let ps = fst st; done = snd st
      in case (case pair col of None \<Rightarrow> None
               | Some k \<Rightarrow> (case table ps k of None \<Rightarrow> None | Some pr \<Rightarrow> Some (k, pr))) of
           Some (k, pr) \<Rightarrow>
             (let ps = (if isActive pr then ps\<lparr>collisionActive := collisionActive ps @ [k]\<rparr> else ps)
              in case Pair_update s pr col timestamp of
                   Inl e \<Rightarrow> Inl e
                 | Inr pr' \<Rightarrow> Inr (ps\<lparr>table := (table ps)(k \<mapsto> pr')\<rparr>, done @ [collision pr']))
         | None \<Rightarrow>
             (case Pair_create s col timestamp of
                Inl e \<Rightarrow> Inl e
              | Inr pr' \<Rightarrow>
                  Inr (ps\<lparr>table := (table ps)(pair_id pr' \<mapsto> pr'),
                          collisionStart := collisionStart ps @ [pair_id pr'],
                          list := list ps @ [pair_id pr']\<rparr>,
                       done @ [collision pr'])))"

fun collisions_loop ::
  "store \<Rightarrow> real \<Rightarrow> Collision list \<Rightarrow> Pairs \<times> Collision list \<Rightarrow> exception + (Pairs \<times> Collision list)" where
  "collisions_loop s timestamp [] st = Inr st"
| "collisions_loop s timestamp (col # rest) st =
     (case collisions_step s timestamp col st of
        Inl e \<Rightarrow> Inl e
      | Inr st' \<Rightarrow> collisions_loop s timestamp rest st')"

fun list_loop :: "store \<Rightarrow> real \<Rightarrow> pair_id list \<Rightarrow> Pairs \<Rightarrow> exception + Pairs" where
  "list_loop s timestamp [] ps = Inr ps"
| "list_loop s timestamp (k # rest) ps =
     (case table ps k of
        None \<Rightarrow> Inl TypeError
      | Some pr \<Rightarrow>
          if timeUpdated pr \<ge> timestamp
          then list_loop s timestamp rest (ps\<lparr>list := list ps @ [k]\<rparr>)
          else
            (let pr = Pair_setActive pr False timestamp;
                 ps = ps\<lparr>table := (table ps)(k \<mapsto> pr)\<rparr>
             in if sleepCounter (s (bodyA (collision pr))) > 0
                   \<and> sleepCounter (s (bodyB (collision pr))) > 0
                then list_loop s timestamp rest (ps\<lparr>list := list ps @ [k]\<rparr>)
                else list_loop s timestamp rest
                       (ps\<lparr>collisionEnd := collisionEnd ps @ [k],
                           table := (table ps)(pair_id pr := None)\<rparr>)))"

definition Pairs_update ::
  "store \<Rightarrow> Pairs \<Rightarrow> Collision list \<Rightarrow> real \<Rightarrow> exception + (Pairs \<times> Collision list)" where
  "Pairs_update s ps collisions timestamp =
     (case collisions_loop s timestamp collisions
             (ps\<lparr>collisionStart := [], collisionActive := [], collisionEnd := []\<rparr>, []) of
        Inl e \<Rightarrow> Inl e
      | Inr (ps, collisions') \<Rightarrow>
          (case list_loop s timestamp (list ps) (ps\<lparr>list := []\<rparr>) of
             Inl e \<Rightarrow> Inl e
           | Inr ps \<Rightarrow> Inr (ps, collisions')))"



subsection \<open>Resolver\<close>























subsection \<open>Composite: constraints and the modified flag\<close>

text \<open>
  \<^verbatim>\<open>allConstraints\<close> of \<^verbatim>\<open>src/Composite.ts\<close> concatenates the arrays of the children.
  \<^verbatim>\<open>setModified(composite, isModified, updateParents, updateChildren)\<close> is modelled
  for \<^verbatim>\<open>updateParents\<close> false, as the engine calls it (a composite of the model has no
  reference to its parent).
\<close>

fun allConstraints :: "Composite \<Rightarrow> addr list \<times> Composite"
  and allConstraints_loop :: "addr list \<Rightarrow> Composite list \<Rightarrow> addr list \<times> Composite list" where
  "allConstraints (Composite modified direct cons children cache cacheC) =
     (case cacheC of
        Some cached \<Rightarrow> (cached, Composite modified direct cons children cache cacheC)
      | None \<Rightarrow>
          (case allConstraints_loop cons children of
             (cns, children') \<Rightarrow>
               (cns, Composite modified direct cons children' cache (Some cns))))"
| "allConstraints_loop acc [] = (acc, [])"
| "allConstraints_loop acc (child # rest) =
     (case allConstraints child of
        (r, child') \<Rightarrow>
          (case allConstraints_loop (acc @ r) rest of
             (cns, rest') \<Rightarrow> (cns, child' # rest')))"


subsection \<open>Engine.update\<close>

text \<open>
  The engine with its world, its pairs and its detector.  \<^verbatim>\<open>Engine.create\<close> makes
  \<^verbatim>\<open>engine.detector.pairs\<close> the structure \<^verbatim>\<open>engine.pairs\<close>: the model keeps the
  one structure in \<open>engine_pairs\<close> and hands it to the detector.  The iteration counts
  are natural numbers.  No event handler is registered (\<^verbatim>\<open>events\<close> is empty), so the
  calls of \<^verbatim>\<open>trigger\<close> do nothing; the warning for a large \<^verbatim>\<open>delta\<close> and the
  wall-clock \<^verbatim>\<open>timing.lastElapsed\<close> are left out.
\<close>

record Timing =
  timestamp :: real
  timing_timeScale :: real
  lastDelta :: real



fun repeat :: "nat \<Rightarrow> ('a \<Rightarrow> exception + 'a) \<Rightarrow> 'a \<Rightarrow> exception + 'a" where
  "repeat 0 f st = Inr st"
| "repeat (Suc n) f st = (case f st of Inl e \<Rightarrow> Inl e | Inr st' \<Rightarrow> repeat n f st')"









subsection \<open>Static bodies\<close>











subsection \<open>A record left in the table of pairs\<close>










subsection \<open>The stores of the two runs\<close>




section \<open>Translating bounds and bodies\<close>

text \<open>
  The bounds of translated vertices are the translated bounds: the comparisons of
  \<^verbatim>\<open>Bounds.update\<close> are invariant under a common shift, and the infinities of an empty
  vertex list stay.
\<close>

lemma xless_xadd_Num: "xless (xadd a d) (Num (v + d)) \<longleftrightarrow> xless a (Num v)"
  by (cases a) simp_all

lemma xless_Num_xadd: "xless (Num (v + d)) (xadd a d) \<longleftrightarrow> xless (Num v) a"
  by (cases a) simp_all

lemma xadd_commute: "xadd (xadd a d) e = xadd (xadd a e) d"
  by (cases a) simp_all

lemma Bounds_update_vertex_translate:
  "Bounds_update_vertex (v\<lparr>x := x v + x d, y := y v + y d\<rparr>) (Bounds_translate b d)
     = Bounds_translate (Bounds_update_vertex v b) d"
  by (simp add: Bounds_update_vertex_def Bounds_translate_def Let_def xless_xadd_Num xless_Num_xadd)

lemma fold_Bounds_update_vertex_translate:
  "fold Bounds_update_vertex (map (\<lambda>v. v\<lparr>x := x v + x d, y := y v + y d\<rparr>) vs) (Bounds_translate b d)
     = Bounds_translate (fold Bounds_update_vertex vs b) d"
  by (induction vs arbitrary: b) (simp_all add: Bounds_update_vertex_translate)

lemma Bounds_update_translate:
  "Bounds_update (Vertices_translate vs d 1) (Some vel)
     = Bounds_translate (Bounds_update vs (Some vel)) d"
proof -
  let ?b0 = "\<lparr>min' = \<lparr>x = PosInfinity, y = PosInfinity\<rparr>,
                max' = \<lparr>x = NegInfinity, y = NegInfinity\<rparr>\<rparr>"
  have b0: "Bounds_translate ?b0 d = ?b0" by (simp add: Bounds_translate_def)
  have "fold Bounds_update_vertex (map (\<lambda>v. v\<lparr>x := x v + x d, y := y v + y d\<rparr>) vs) ?b0
     = Bounds_translate (fold Bounds_update_vertex vs ?b0) d"
    using fold_Bounds_update_vertex_translate [of d vs ?b0] by (simp only: b0)
  then show ?thesis
    by (simp add: Bounds_update_def Vertices_translate_def Let_def Bounds_translate_def xadd_commute)
qed

text \<open>Moving a body twice, and the fields a move leaves alone.\<close>

lemma translated_velocity [simp]: "velocity (translated d vel body) = velocity body"
  by (simp add: translated_def)

lemma translated_twice:
  "translated d2 vel (translated d1 vel body)
     = translated \<lparr>x = x d1 + x d2, y = y d1 + y d2\<rparr> vel body"
  by (simp add: translated_def Vertices_translate_def Let_def add.assoc comp_def)

lemma shifted_twice:
  "shifted d2 (shifted d1 body) = shifted \<lparr>x = x d1 + x d2, y = y d1 + y d2\<rparr> body"
  by (simp add: shifted_def add.assoc)

lemma shifted_translated:
  "shifted d2 (translated d1 vel body) = translated d1 vel (shifted d2 body)"
  by (simp add: shifted_def translated_def)

lemma translated_fields:
  "parts (translated d vel body) = parts body"
  "position (translated d vel body) = \<lparr>x = x (position body) + x d, y = y (position body) + y d\<rparr>"
  by (simp_all add: translated_def)

lemma shifted_fields:
  "parts (shifted d body) = parts body"
  "position (shifted d body) = position body"
  "velocity (shifted d body) = velocity body"
  by (simp_all add: shifted_def)

section \<open>Composite.allBodies\<close>

text \<open>
  Claim C1: for every composite, \<^verbatim>\<open>Composite.allBodies\<close> returns the depth-first
  flattening of the tree's bodies, the composite's own bodies followed by the bodies of
  every child.  On a composite that holds body 1 and one child holding body 2, with
  empty caches, the flattening is bodies 1 and 2; the copy of \<^verbatim>\<open>src/Composite.ts\<close>
  returns only body 2, and the copy of \<^verbatim>\<open>src/body/Composite.ts\<close> throws.
\<close>

theorem allBodies_overwrites_accumulator:
  "fst (allBodies (Composite False [1] [] [Composite False [2] [] [] None None] None None)) = [2]
   \<and> flatten_bodies (Composite False [1] [] [Composite False [2] [] [] None None] None None) = [1, 2]
   \<and> body_allBodies (Composite False [1] [] [Composite False [2] [] [] None None] None None)
       = Inl ReferenceError"
  by (simp add: body_allBodies_def)

section \<open>Query.ray\<close>

text \<open>
  With a binding for \<^verbatim>\<open>Bodies\<close>, \<^verbatim>\<open>Query.ray\<close> is the query of the rectangle against
  the bodies, every collision carrying the body that was hit.
\<close>

lemma Query_ray_bound:
  assumes "rectangle s ((x endPoint + x startPoint) * 0.5) ((y endPoint + y startPoint) * 0.5)
             (Vector_magnitude (Vector_sub startPoint endPoint)) w
             (Vector_angle startPoint endPoint) = (ray, s')"
    and "w \<noteq> 0"
    and "Query_collides s' ray bodyList = Inr collisions"
  shows "Query_ray (Some rectangle) s bodyList startPoint endPoint (Some w)
           = Inr (map ray_collision collisions, s')"
  using assms by (simp add: Query_ray_def Let_def)

lemma ray_collision_body: "body' (ray_collision found) = bodyA found"
  by (simp add: ray_collision_def Collision.defs RayCollision.defs)

text \<open>
  A thin rectangle along the ray, once it exists, is found to collide with the box:
  \<^verbatim>\<open>Query.collides\<close> returns one collision, of the box.
\<close>

lemma rayScene_vertices2: "vertices (rayScene 2) = [\<lparr>x = 375, y = 275, index = 0, isInternal = False\<rparr>, \<lparr>x = 425, y = 275, index = 1, isInternal = False\<rparr>,
  \<lparr>x = 425, y = 325, index = 2, isInternal = False\<rparr>, \<lparr>x = 375, y = 325, index = 3, isInternal = False\<rparr>]"
  by (simp add: rayScene_def rayStore_def bar_def Vertices_create_def)

lemma rayScene_vertices3: "vertices (rayScene 3) = [\<lparr>x = 0, y = 300 - 1 / (2 * 10 ^ 100), index = 0, isInternal = False\<rparr>, \<lparr>x = 800, y = 300 - 1 / (2 * 10 ^ 100), index = 1, isInternal = False\<rparr>,
  \<lparr>x = 800, y = 300 + 1 / (2 * 10 ^ 100), index = 2, isInternal = False\<rparr>, \<lparr>x = 0, y = 300 + 1 / (2 * 10 ^ 100), index = 3, isInternal = False\<rparr>]"
  by (simp add: rayScene_def rayStore_def bar_def Vertices_create_def)

lemma rayScene_fields: "axes (rayScene 2) = [\<lparr>x = 0, y = 1\<rparr>, \<lparr>x = - 1, y = 0\<rparr>]" "axes (rayScene 3) = [\<lparr>x = 0, y = 1\<rparr>, \<lparr>x = - 1, y = 0\<rparr>]"
  "position (rayScene 2) = \<lparr>x = 400, y = 300\<rparr>" "position (rayScene 3) = \<lparr>x = 400, y = 300\<rparr>"
  "id' (rayScene 2) = 2" "id' (rayScene 3) = 3" "parent (rayScene 2) = Some 2" "parent (rayScene 3) = Some 3"
  "parts (rayScene 2) = [2]"
  by (simp_all add: rayScene_def rayStore_def bar_def box40_def)

lemma rayScene_overlapAB: "overlapAxes (vertices (rayScene 2)) (vertices (rayScene 3)) (axes (rayScene 2))
   = Inr \<lparr>overlap = 25 + 1 / (2 * 10 ^ 100), axis = Some \<lparr>x = 0, y = 1\<rparr>\<rparr>"
  by (simp add: rayScene_vertices2 rayScene_vertices3 rayScene_fields overlapAxes_def project_vertices_def MAX_VALUE_def Let_def)

lemma rayScene_overlapBA: "overlapAxes (vertices (rayScene 3)) (vertices (rayScene 2)) (axes (rayScene 3))
   = Inr \<lparr>overlap = 25 + 1 / (2 * 10 ^ 100), axis = Some \<lparr>x = 0, y = 1\<rparr>\<rparr>"
  by (simp add: rayScene_vertices2 rayScene_vertices3 rayScene_fields overlapAxes_def project_vertices_def MAX_VALUE_def Let_def)

lemma rayScene_supportsB: "findSupports rayScene 2 3 \<lparr>x = 0, y = - 1\<rparr> 1 = Inr [(3, 0), (3, 1)]"
  by (simp add: findSupports_def rayScene_vertices3 rayScene_fields support_distance_def Let_def upt_conv_Cons)

lemma rayScene_supportsA: "findSupports rayScene 3 2 \<lparr>x = 0, y = - 1\<rparr> (- 1) = Inr [(2, 2), (2, 3)]"
  by (simp add: findSupports_def rayScene_vertices2 rayScene_fields support_distance_def Let_def upt_conv_Cons)

lemma rayScene_supports: "collides_supports rayScene 2 3 \<lparr>x = 0, y = - 1\<rparr> [None, None] = Inr ([Some (2, 2), None], 1)"
  by (simp add: collides_supports_def supports_inside_A_def supports_inside_B_def push_support_def rayScene_supportsA rayScene_supportsB deref_def rayScene_vertices2 rayScene_vertices3 Vertices_contains_def array_set_def Let_def)

lemma rayScene_record: "collision_record rayScene 2 3 None = Inr \<lparr>pair = None, collided = True, bodyA = 2, bodyB = 3, parentA = 2, parentB = 3,
               depth = 0, normal = \<lparr>x = 0, y = 0\<rparr>, tangent = \<lparr>x = 0, y = 0\<rparr>,
               penetration = \<lparr>x = 0, y = 0\<rparr>, supports = [None, None], supportCount = 0\<rparr>"
  by (simp add: collision_record_def Collision_create_def Pair_id_def rayScene_fields)

lemma rayScene_collides: "Collision_collides rayScene 2 3 None = Inr (Some rayHit, None)"
  by (simp only: Collision_collides_def rayScene_overlapAB rayScene_overlapBA rayScene_record)
     (simp add: rayScene_fields rayScene_supports rayHit_def Let_def)

lemma rayScene_bounds: "Bounds_overlaps (bounds (rayScene 2)) (bounds (rayScene 3))"
  by (simp add: rayScene_def rayStore_def bar_def Vertices_create_def Bounds_update_def
      Bounds_update_vertex_def Bounds_overlaps_def xle_def Let_def)

lemma Query_collides_rayScene: "Query_collides rayScene 3 [2] = Inr [rayHit]"
  by (simp add: Query_collides_def rayScene_fields rayScene_bounds rayScene_collides)

text \<open>
  Claim C3: \<^verbatim>\<open>Query.ray\<close> builds a thin rectangle between the two points, queries the
  bodies with it and returns the collisions with the body that was hit; for the scene
  with one box of 50 by 50 centred at (400, 300), the ray from (0, 300) to (800, 300)
  returns exactly one collision, with that box.  In the module as it is written the
  identifier \<^verbatim>\<open>Bodies\<close> is not bound, and the call throws a \<^verbatim>\<open>ReferenceError\<close> where
  the rectangle is to be built: no collision is returned.
\<close>

theorem Query_ray_throws:
  "Query_ray Query_scope_Bodies rayStore [2] \<lparr>x = 0, y = 300\<rparr> \<lparr>x = 800, y = 300\<rparr> None
     = Inl ReferenceError"
  by (simp add: Query_ray_def Query_scope_Bodies_def Let_def)

section \<open>Axes.fromVertices\<close>

















section \<open>The crossing bars\<close>

text \<open>
  Three bars: a wide one (body 2) crossed by two tall ones (bodies 3 and 4).  The
  collision of the wide bar with body 3 is evaluated step by step.
\<close>

lemma crossStore_vertices2: "vertices (crossStore 2) = [\<lparr>x = 0, y = 40, index = 0, isInternal = False\<rparr>, \<lparr>x = 100, y = 40, index = 1, isInternal = False\<rparr>,
  \<lparr>x = 100, y = 60, index = 2, isInternal = False\<rparr>, \<lparr>x = 0, y = 60, index = 3, isInternal = False\<rparr>]"
  by (simp add: crossStore_def bar_def Vertices_create_def)

lemma crossStore_vertices3: "vertices (crossStore 3) = [\<lparr>x = 45, y = 0, index = 0, isInternal = False\<rparr>, \<lparr>x = 65, y = 0, index = 1, isInternal = False\<rparr>,
  \<lparr>x = 65, y = 100, index = 2, isInternal = False\<rparr>, \<lparr>x = 45, y = 100, index = 3, isInternal = False\<rparr>]"
  by (simp add: crossStore_def bar_def Vertices_create_def)

lemma crossStore_fields: "axes (crossStore 2) = [\<lparr>x = 0, y = 1\<rparr>, \<lparr>x = - 1, y = 0\<rparr>]" "axes (crossStore 3) = [\<lparr>x = 0, y = 1\<rparr>, \<lparr>x = - 1, y = 0\<rparr>]"
  "position (crossStore 2) = \<lparr>x = 50, y = 50\<rparr>" "position (crossStore 3) = \<lparr>x = 55, y = 50\<rparr>"
  "id' (crossStore 2) = 2" "id' (crossStore 3) = 3" "parent (crossStore 2) = Some 2" "parent (crossStore 3) = Some 3"
  by (simp_all add: crossStore_def bar_def box40_def)

lemma crossStore_overlapAB: "overlapAxes (vertices (crossStore 2)) (vertices (crossStore 3)) (axes (crossStore 2))
   = Inr \<lparr>overlap = 55, axis = Some \<lparr>x = - 1, y = 0\<rparr>\<rparr>"
  by (simp add: crossStore_vertices2 crossStore_vertices3 crossStore_fields overlapAxes_def project_vertices_def MAX_VALUE_def Let_def)

lemma crossStore_overlapBA: "overlapAxes (vertices (crossStore 3)) (vertices (crossStore 2)) (axes (crossStore 3))
   = Inr \<lparr>overlap = 55, axis = Some \<lparr>x = - 1, y = 0\<rparr>\<rparr>"
  by (simp add: crossStore_vertices2 crossStore_vertices3 crossStore_fields overlapAxes_def project_vertices_def MAX_VALUE_def Let_def)

lemma crossStore_supportsB: "findSupports crossStore 2 3 \<lparr>x = - 1, y = 0\<rparr> 1 = Inr [(3, 0), (3, 3)]"
  by (simp add: findSupports_def crossStore_vertices3 crossStore_fields support_distance_def Let_def upt_conv_Cons)

lemma crossStore_supportsA: "findSupports crossStore 3 2 \<lparr>x = - 1, y = 0\<rparr> (- 1) = Inr [(2, 1), (2, 2)]"
  by (simp add: findSupports_def crossStore_vertices2 crossStore_fields support_distance_def Let_def upt_conv_Cons)

lemma crossStore_supports: "collides_supports crossStore 2 3 \<lparr>x = - 1, y = 0\<rparr> [None, None] = Inr ([Some (2, 1), None], 1)"
  by (simp add: collides_supports_def supports_inside_A_def supports_inside_B_def push_support_def crossStore_supportsA crossStore_supportsB deref_def crossStore_vertices2 crossStore_vertices3 Vertices_contains_def array_set_def Let_def)

lemma crossStore_record: "collision_record crossStore 2 3 None = Inr \<lparr>pair = None, collided = True, bodyA = 2, bodyB = 3, parentA = 2, parentB = 3,
               depth = 0, normal = \<lparr>x = 0, y = 0\<rparr>, tangent = \<lparr>x = 0, y = 0\<rparr>,
               penetration = \<lparr>x = 0, y = 0\<rparr>, supports = [None, None], supportCount = 0\<rparr>"
  by (simp add: collision_record_def Collision_create_def Pair_id_def crossStore_fields)

lemma crossStore_collides: "Collision_collides crossStore 2 3 None = Inr (Some cross23, None)"
  by (simp only: Collision_collides_def crossStore_overlapAB crossStore_overlapBA
      crossStore_record)
     (simp add: crossStore_fields crossStore_supports cross23_def Let_def)

section \<open>Detector.collisions\<close>


lemma pairs_admittedD:
  assumes "pairs_admitted s (Some ps)" and "table ps k = Some pr"
  shows "admitted s (collision pr)"
proof -
  from assms(1) have "\<forall>k pr. table ps k = Some pr \<longrightarrow> admitted s (collision pr)"
    unfolding pairs_admitted_def by simp
  with assms(2) show ?thesis by blast
qed













text \<open>
  \<^verbatim>\<open>Pairs.update\<close> keeps the table admitted: the records that it puts into the
  table are those of the list that the detector returned.
\<close>

lemma pairs_admitted_table:
  assumes "pairs_admitted s (Some ps)"
    and "\<And>k pr. table ps' k = Some pr \<Longrightarrow>
           table ps k = Some pr \<or> admitted s (collision pr)"
  shows "pairs_admitted s (Some ps')"
  unfolding pairs_admitted_def option.case
proof (intro allI impI)
  fix k pr assume "table ps' k = Some pr"
  from assms(2) [OF this] show "admitted s (collision pr)"
    using pairs_admittedD [OF assms(1)] by blast
qed

lemma Pair_update_parents:
  assumes "Pair_update s pr col ts = Inr pr'"
  shows "parentA (collision pr') = parentA col \<and> parentB (collision pr') = parentB col"
  using assms by (auto simp: Pair_update_def Let_def split: if_splits)

lemma Pair_create_parents:
  assumes "Pair_create s col ts = Inr pr'"
  shows "parentA (collision pr') = parentA col \<and> parentB (collision pr') = parentB col"
  using assms unfolding Pair_create_def by (rule Pair_update_parents)

lemma collisions_step_admitted:
  assumes "pairs_admitted s (Some (fst st))" and "admitted s col"
    and "collisions_step s ts col st = Inr st'"
  shows "pairs_admitted s (Some (fst st'))"
proof -
  define found where "found = (case pair col of None \<Rightarrow> None
      | Some k \<Rightarrow> (case table (fst st) k of None \<Rightarrow> None | Some pr \<Rightarrow> Some (k, pr)))"
  show ?thesis
  proof (cases found)
    case None
    then obtain pr' where 1: "Pair_create s col ts = Inr pr'"
      and 2: "table (fst st') = (table (fst st))(pair_id pr' \<mapsto> pr')"
      using assms(3) unfolding collisions_step_def Let_def found_def [symmetric]
      by (auto split: sum.splits)
    have ad: "admitted s (collision pr')"
      using Pair_create_parents [OF 1] assms(2) by (simp add: admitted_def)
    show ?thesis
    proof (rule pairs_admitted_table [OF assms(1)])
      fix k pr assume "table (fst st') k = Some pr"
      then show "table (fst st) k = Some pr \<or> admitted s (collision pr)"
        using ad unfolding 2 by (cases "k = pair_id pr'") auto
    qed
  next
    case (Some kp)
    obtain k0 pr0 where kp: "kp = (k0, pr0)" by (cases kp)
    obtain pr' where 1: "Pair_update s pr0 col ts = Inr pr'"
      and 2: "table (fst st') = (table (fst st))(k0 \<mapsto> pr')"
      using assms(3) Some unfolding collisions_step_def Let_def found_def [symmetric] kp
      by (auto split: sum.splits if_splits)
    have ad: "admitted s (collision pr')"
      using Pair_update_parents [OF 1] assms(2) by (simp add: admitted_def)
    show ?thesis
    proof (rule pairs_admitted_table [OF assms(1)])
      fix k pr assume "table (fst st') k = Some pr"
      then show "table (fst st) k = Some pr \<or> admitted s (collision pr)"
        using ad unfolding 2 by (cases "k = k0") auto
    qed
  qed
qed

lemma collisions_loop_admitted:
  "pairs_admitted s (Some (fst st)) \<Longrightarrow> \<forall>c \<in> set cols. admitted s c \<Longrightarrow>
     collisions_loop s ts cols st = Inr st' \<Longrightarrow> pairs_admitted s (Some (fst st'))"
proof (induction cols arbitrary: st)
  case Nil
  then show ?case by simp
next
  case (Cons col cols)
  from Cons.prems(3) obtain st1 where 1: "collisions_step s ts col st = Inr st1"
    and 2: "collisions_loop s ts cols st1 = Inr st'"
    by (auto split: sum.splits)
  have "pairs_admitted s (Some (fst st1))"
    by (rule collisions_step_admitted [OF Cons.prems(1) _ 1]) (simp add: Cons.prems(2))
  then show ?case using Cons.prems(2) 2 by (intro Cons.IH) simp_all
qed

lemma list_loop_admitted:
  "pairs_admitted s (Some ps) \<Longrightarrow> list_loop s ts ks ps = Inr ps' \<Longrightarrow>
     pairs_admitted s (Some ps')"
proof (induction ks arbitrary: ps)
  case Nil
  then show ?case by simp
next
  case (Cons k ks)
  from Cons.prems(2) obtain pr where pr: "table ps k = Some pr"
    by (auto split: option.splits)
  have ad: "admitted s (collision pr)" by (rule pairs_admittedD [OF Cons.prems(1) pr])
  show ?case
  proof (cases "timeUpdated pr \<ge> ts")
    case True
    then have 1: "list_loop s ts ks (ps\<lparr>list := list ps @ [k]\<rparr>) = Inr ps'"
      using Cons.prems(2) pr by simp
    have "pairs_admitted s (Some (ps\<lparr>list := list ps @ [k]\<rparr>))"
      by (rule pairs_admitted_table [OF Cons.prems(1)]) simp
    then show ?thesis using 1 by (rule Cons.IH)
  next
    case False
    define pr1 where "pr1 = Pair_setActive pr False ts"
    define ps1 where "ps1 = ps\<lparr>table := (table ps)(k \<mapsto> pr1)\<rparr>"
    have c1: "collision pr1 = collision pr" by (simp add: pr1_def Pair_setActive_def)
    have a1: "pairs_admitted s (Some ps1)"
    proof (rule pairs_admitted_table [OF Cons.prems(1)])
      fix k' pr' assume "table ps1 k' = Some pr'"
      then show "table ps k' = Some pr' \<or> admitted s (collision pr')"
        using ad c1 by (cases "k' = k") (auto simp: ps1_def)
    qed
    show ?thesis
    proof (cases "sleepCounter (s (bodyA (collision pr1))) > 0
        \<and> sleepCounter (s (bodyB (collision pr1))) > 0")
      case True
      then have 1: "list_loop s ts ks (ps1\<lparr>list := list ps1 @ [k]\<rparr>) = Inr ps'"
        using Cons.prems(2) pr False
        by (auto simp add: Let_def pr1_def ps1_def split: if_splits)
      have "pairs_admitted s (Some (ps1\<lparr>list := list ps1 @ [k]\<rparr>))"
        by (rule pairs_admitted_table [OF a1]) simp
      then show ?thesis using 1 by (rule Cons.IH)
    next
      case nosleep: False
      define ps2 where "ps2 = ps1\<lparr>collisionEnd := collisionEnd ps1 @ [k],
          table := (table ps1)(pair_id pr1 := None)\<rparr>"
      have 1: "list_loop s ts ks ps2 = Inr ps'"
        using Cons.prems(2) pr False nosleep
        by (auto simp add: Let_def pr1_def ps1_def ps2_def split: if_splits)
      have "pairs_admitted s (Some ps2)"
      proof (rule pairs_admitted_table [OF a1])
        fix k' pr' assume "table ps2 k' = Some pr'"
        then show "table ps1 k' = Some pr' \<or> admitted s (collision pr')"
          by (cases "k' = pair_id pr1") (auto simp: ps2_def)
      qed
      then show ?thesis using 1 by (rule Cons.IH)
    qed
  qed
qed

lemma Pairs_update_admitted:
  assumes "pairs_admitted s (Some ps)" and "\<forall>c \<in> set cols. admitted s c"
    and "Pairs_update s ps cols ts = Inr (ps', cols')"
  shows "pairs_admitted s (Some ps')"
proof -
  let ?ps0 = "ps\<lparr>collisionStart := [], collisionActive := [], collisionEnd := []\<rparr>"
  from assms(3) obtain ps1 c1 where 1: "collisions_loop s ts cols (?ps0, []) = Inr (ps1, c1)"
    and 2: "list_loop s ts (list ps1) (ps1\<lparr>list := []\<rparr>) = Inr ps'"
    by (auto simp: Pairs_update_def split: sum.splits prod.splits)
  have 0: "pairs_admitted s (Some (fst (?ps0, [])))"
    by (rule pairs_admitted_table [OF assms(1)]) simp
  have "pairs_admitted s (Some (fst (ps1, c1)))"
    by (rule collisions_loop_admitted [OF 0 assms(2) 1])
  then have 3: "pairs_admitted s (Some ps1)" by simp
  have "pairs_admitted s (Some (ps1\<lparr>list := []\<rparr>))"
    by (rule pairs_admitted_table [OF 3]) simp
  then show ?thesis using 2 by (rule list_loop_admitted)
qed


































section \<open>Collision.collides: the support points\<close>

text \<open>
  Whenever \<^verbatim>\<open>Collision.collides\<close> returns a collision, its \<^verbatim>\<open>supportCount\<close> is 1 or
  2 and the first \<^verbatim>\<open>supportCount\<close> entries of \<^verbatim>\<open>supports\<close> are set.
\<close>

lemma array_set_length: "i < length (array_set xs i v)"
  by (simp add: array_set_def)

lemma array_set_nth: "array_set xs i v ! i = Some v"
  by (simp add: array_set_def nth_append)

lemma array_set_nth_other: "j < i \<Longrightarrow> j < length xs \<Longrightarrow> array_set xs i v ! j = xs ! j"
  by (simp add: array_set_def nth_append)

lemma array_set_length_mono: "length xs \<le> length (array_set xs i v)"
  by (simp add: array_set_def)

lemma supports_set_0: "supports_set sups 0"
  by (simp add: supports_set_def)

lemma supports_set_step:
  assumes "supports_set sups cnt"
  shows "supports_set (array_set sups cnt v) (cnt + 1)"
  unfolding supports_set_def
proof (intro allI impI)
  fix i assume "i < cnt + 1"
  then consider "i = cnt" | "i < cnt" by linarith
  then show "i < length (array_set sups cnt v) \<and> array_set sups cnt v ! i \<noteq> None"
  proof cases
    case 1
    then show ?thesis by (simp add: array_set_length array_set_nth)
  next
    case 2
    with assms have "i < length sups" "sups ! i \<noteq> None" by (simp_all add: supports_set_def)
    with 2 show ?thesis
      using array_set_length_mono [of sups cnt v] by (simp add: array_set_nth_other)
  qed
qed

lemma push_support_count: "snd (push_support sc v) = Suc (snd sc)"
  by (simp add: push_support_def)

lemma push_support_set:
  assumes "supports_set (fst sc) n" and "snd sc = n"
  shows "supports_set (fst (push_support sc v)) (Suc n)"
  using supports_set_step [of "fst sc" n v] assms by (simp add: push_support_def)

lemma supports_inside_A_set:
  assumes "supports_set (fst sc) (snd sc)" and "snd sc = 0"
  shows "supports_set (fst (supports_inside_A s A supportsB sc)) (snd (supports_inside_A s A supportsB sc))
    \<and> snd (supports_inside_A s A supportsB sc) \<le> 2"
proof -
  define sc1 where "sc1 = (if Vertices_contains (vertices (s A)) (deref s (supportsB ! 0))
                then push_support sc (supportsB ! 0) else sc)"
  have 1: "supports_set (fst sc1) (snd sc1)" "snd sc1 \<le> 1"
    using assms by (simp_all add: sc1_def push_support_set push_support_count)
  have r: "supports_inside_A s A supportsB sc =
      (if Vertices_contains (vertices (s A)) (deref s (supportsB ! 1))
         then push_support sc1 (supportsB ! 1) else sc1)"
    by (simp add: supports_inside_A_def sc1_def Let_def)
  show ?thesis
    unfolding r using 1 by (simp add: push_support_set push_support_count)
qed

lemma supports_inside_B_set:
  assumes "supports_set (fst sc) (snd sc)" and "snd sc < 2"
  shows "supports_set (fst (supports_inside_B s B supportsA sc)) (snd (supports_inside_B s B supportsA sc))
    \<and> snd (supports_inside_B s B supportsA sc) \<le> 2"
proof -
  define sc1 where "sc1 = (if Vertices_contains (vertices (s B)) (deref s (supportsA ! 0))
                then push_support sc (supportsA ! 0) else sc)"
  have 1: "supports_set (fst sc1) (snd sc1)" "snd sc1 \<le> 2"
    using assms by (simp_all add: sc1_def push_support_set push_support_count)
  have r: "supports_inside_B s B supportsA sc =
      (if snd sc1 < 2 \<and> Vertices_contains (vertices (s B)) (deref s (supportsA ! 1))
         then push_support sc1 (supportsA ! 1) else sc1)"
    by (simp add: supports_inside_B_def sc1_def Let_def)
  show ?thesis
    unfolding r using 1 by (simp add: push_support_set push_support_count)
qed

lemma collides_supports_count:
  assumes "collides_supports s A B nrm sups = Inr (sups', cnt)"
  shows "(cnt = 1 \<or> cnt = 2) \<and> supports_set sups' cnt"
proof -
  obtain supportsB where sB: "findSupports s A B nrm 1 = Inr supportsB"
    using assms by (auto simp: collides_supports_def split: sum.splits)
  define sc2 where "sc2 = supports_inside_A s A supportsB (sups, 0)"
  have i2: "supports_set (fst sc2) (snd sc2) \<and> snd sc2 \<le> 2"
    unfolding sc2_def by (rule supports_inside_A_set) (simp_all add: supports_set_0)
  show ?thesis
  proof (cases "snd sc2 < 2")
    case False
    then have "(sups', cnt) = sc2"
      using assms by (simp add: collides_supports_def sB Let_def sc2_def)
    with i2 False show ?thesis by (cases sc2) auto
  next
    case True
    then obtain supportsA where sA: "findSupports s B A nrm (- 1) = Inr supportsA"
      using assms by (auto simp: collides_supports_def sB Let_def sc2_def split: sum.splits)
    define sc4 where "sc4 = supports_inside_B s B supportsA sc2"
    have i4: "supports_set (fst sc4) (snd sc4) \<and> snd sc4 \<le> 2"
      unfolding sc4_def using i2 True by (intro supports_inside_B_set) simp_all
    have res: "(sups', cnt) = (if snd sc4 = 0 then push_support sc4 (supportsA ! 0) else sc4)"
      using assms True
      by (simp add: collides_supports_def sB sA Let_def sc2_def sc4_def split: if_splits)
    show ?thesis
    proof (cases "snd sc4 = 0")
      case True
      with res have r: "(sups', cnt) = push_support sc4 (supportsA ! 0)" by simp
      have "supports_set (fst sc4) 0" using i4 True by simp
      from push_support_set [OF this True, of "supportsA ! 0"] True r [symmetric]
        push_support_count [of sc4 "supportsA ! 0"]
      show ?thesis by simp
    next
      case False
      with res have "(sups', cnt) = sc4" by simp
      with i4 False show ?thesis by (cases sc4) auto
    qed
  qed
qed

lemma Collision_collides_supportCount:
  assumes "Collision_collides s A B prs = Inr (Some c, prs')"
  shows "(supportCount c = 1 \<or> supportCount c = 2) \<and> supports_set (supports c) (supportCount c)"
  using assms
  by (auto simp: Collision_collides_def Let_def split: sum.splits if_splits option.splits prod.splits
      dest!: collides_supports_count)

text \<open>
  When no candidate is inside the other body, the entry that the fallback stores is the
  first candidate of the second call of \<^verbatim>\<open>_findSupports\<close>, a vertex of \<open>A\<close>.
\<close>

lemma collides_supports_fallback:
  assumes "findSupports s A B nrm 1 = Inr supportsB"
    and "findSupports s B A nrm (- 1) = Inr supportsA"
    and "\<not> Vertices_contains (vertices (s A)) (deref s (supportsB ! 0))"
    and "\<not> Vertices_contains (vertices (s A)) (deref s (supportsB ! 1))"
    and "\<not> Vertices_contains (vertices (s B)) (deref s (supportsA ! 0))"
    and "\<not> Vertices_contains (vertices (s B)) (deref s (supportsA ! 1))"
  shows "collides_supports s A B nrm sups = Inr (array_set sups 0 (supportsA ! 0), 1)"
  using assms
  by (simp add: collides_supports_def supports_inside_A_def supports_inside_B_def
      push_support_def Let_def)

text \<open>
  Claim C6: for convex bodies with vertices, a collision that \<^verbatim>\<open>Collision.collides\<close>
  returns has \<^verbatim>\<open>supportCount\<close> 1 or 2 with that many entries of \<^verbatim>\<open>supports\<close> set,
  and when no support vertex of either body is inside the other, the first candidate on
  the side of \<open>B\<close> is used.  The count is as claimed (lemma
  \<open>Collision_collides_supportCount\<close>); the fallback is not.  For the crossing bars the
  candidates of the tall bar \<open>B\<close> are its vertices 0 and 3, none of the four candidates
  is inside the other bar, and the collision's only support is vertex 1 of the wide bar
  \<open>A\<close>: the second call of \<^verbatim>\<open>_findSupports\<close> has overwritten the array that
  \<^verbatim>\<open>supportsB\<close> refers to.
\<close>

theorem Collision_collides_fallback_support:
  "Collision_collides crossStore 2 3 None =
     Inr (Some \<lparr>pair = None, collided = True, bodyA = 2, bodyB = 3, parentA = 2, parentB = 3,
                depth = 55, normal = \<lparr>x = - 1, y = 0\<rparr>, tangent = \<lparr>x = 0, y = - 1\<rparr>,
                penetration = \<lparr>x = - 55, y = 0\<rparr>,
                supports = [Some (2, 1), None], supportCount = 1\<rparr>, None)
   \<and> findSupports crossStore 2 3 \<lparr>x = - 1, y = 0\<rparr> 1 = Inr [(3, 0), (3, 3)]
   \<and> findSupports crossStore 3 2 \<lparr>x = - 1, y = 0\<rparr> (- 1) = Inr [(2, 1), (2, 2)]"
  using crossStore_collides
  by (simp add: cross23_def crossStore_supportsA crossStore_supportsB)

section \<open>Body.update\<close>

text \<open>
  The loop over the parts changes vertices, axes, bounds and the positions of the parts
  after the first; the other fields that \<^verbatim>\<open>Body.update\<close> has set stay.
\<close>

lemma update_part_frame:
  "velocity (update_part b ip s q) = velocity (s q)"
  "positionPrev (update_part b ip s q) = positionPrev (s q)"
  "deltaTime (update_part b ip s q) = deltaTime (s q)"
  "angularVelocity (update_part b ip s q) = angularVelocity (s q)"
  "anglePrev (update_part b ip s q) = anglePrev (s q)"
  "angle (update_part b ip s q) = angle (s q)"
  by (simp_all add: update_part_def Let_def)

lemma update_part_position:
  "fst ip = 0 \<or> snd ip \<noteq> q \<Longrightarrow> position (update_part b ip s q) = position (s q)"
  by (auto simp add: update_part_def Let_def)

lemma fold_update_part_frame:
  "velocity (fold (update_part b) ips s q) = velocity (s q)
   \<and> positionPrev (fold (update_part b) ips s q) = positionPrev (s q)
   \<and> deltaTime (fold (update_part b) ips s q) = deltaTime (s q)
   \<and> angularVelocity (fold (update_part b) ips s q) = angularVelocity (s q)
   \<and> anglePrev (fold (update_part b) ips s q) = anglePrev (s q)
   \<and> angle (fold (update_part b) ips s q) = angle (s q)"
  by (induction ips arbitrary: s) (simp_all add: update_part_frame)

lemma fold_update_part_position:
  "\<forall>ip \<in> set ips. fst ip = 0 \<or> snd ip \<noteq> q \<Longrightarrow>
     position (fold (update_part b) ips s q) = position (s q)"
  by (induction ips arbitrary: s) (simp_all add: update_part_position)

lemma enumerate_tl:
  assumes "b \<notin> set (tl ps)"
  shows "\<forall>ip \<in> set (enumerate 0 ps). fst ip = 0 \<or> snd ip \<noteq> b"
proof (cases ps)
  case Nil
  then show ?thesis by simp
next
  case (Cons p rest)
  have "\<forall>ip \<in> set (enumerate (Suc 0) rest). snd ip \<noteq> b"
    using assms Cons by (auto simp: in_set_enumerate_eq)
  then show ?thesis using Cons by auto
qed

lemma Body_update_fields:
  assumes "b \<notin> set (tl (parts (s b)))"
    and body_def: "body = s b"
    and dt_def: "dt = d * timeScale body"
    and c_def: "c = dt / (if deltaTime body = 0 then dt else deltaTime body)"
    and f_def: "f = 1 - frictionAir body * dt / (1000 / 60)"
    and s'_def: "s' = Body_update s b (Some d)"
  shows "x (velocity (s' b)) = (x (position body) - x (positionPrev body)) * c * f + (x (force body) / mass body) * dt\<^sup>2
    \<and> y (velocity (s' b)) = (y (position body) - y (positionPrev body)) * c * f + (y (force body) / mass body) * dt\<^sup>2
    \<and> positionPrev (s' b) = position body
    \<and> x (position (s' b)) = x (position body) + x (velocity (s' b))
    \<and> y (position (s' b)) = y (position body) + y (velocity (s' b))
    \<and> angularVelocity (s' b) = (angle body - anglePrev body) * c * f + (torque body / inertia body) * dt\<^sup>2
    \<and> anglePrev (s' b) = angle body
    \<and> angle (s' b) = angle body + angularVelocity (s' b)
    \<and> deltaTime (s' b) = dt"
proof -
  let ?s1 = "s(b := body\<lparr>velocity := \<lparr>x = (x (position body) - x (positionPrev body)) * c * f + (x (force body) / mass body) * dt\<^sup>2,
                 y = (y (position body) - y (positionPrev body)) * c * f + (y (force body) / mass body) * dt\<^sup>2\<rparr>,
                            positionPrev := \<lparr>x = x (position body), y = y (position body)\<rparr>,
                            position := \<lparr>x = x (position body) + ((x (position body) - x (positionPrev body)) * c * f + (x (force body) / mass body) * dt\<^sup>2), y = y (position body) + ((y (position body) - y (positionPrev body)) * c * f + (y (force body) / mass body) * dt\<^sup>2)\<rparr>,
                            deltaTime := dt,
                            angularVelocity := (angle body - anglePrev body) * c * f + (torque body / inertia body) * dt\<^sup>2,
                            anglePrev := angle body,
                            angle := angle body + ((angle body - anglePrev body) * c * f + (torque body / inertia body) * dt\<^sup>2)\<rparr>)"
  have s': "s' = fold (update_part b) (enumerate 0 (parts (s b))) ?s1"
    unfolding s'_def Body_update_def Let_def body_def dt_def c_def f_def baseDelta_def
    by (simp add: power2_eq_square mult.assoc mult.commute mult.left_commute)
  have en: "\<forall>ip \<in> set (enumerate 0 (parts (s b))). fst ip = 0 \<or> snd ip \<noteq> b"
    using enumerate_tl [OF assms(1)] .
  note fr = fold_update_part_frame [of b "enumerate 0 (parts (s b))" ?s1 b]
  note po = fold_update_part_position [OF en, of b ?s1]
  show ?thesis using fr po by (simp add: s')
qed

text \<open>
  Claim C7, as amended: \<^verbatim>\<open>Body.update(body, d)\<close> integrates with the step
  \<open>dt = d * body.timeScale\<close>, the correction \<open>c = dt / body.deltaTime\<close> when the stored
  \<^verbatim>\<open>body.deltaTime\<close> is not zero and \<open>c = dt / dt\<close> when it is, and the air friction
  factor \<open>f = 1 - frictionAir * dt / (1000 / 60)\<close>.  It sets
  \<open>velocity = (position - positionPrev) * c * f + (force / mass) * dt\<^sup>2\<close>, then
  \<open>positionPrev\<close> to the old position and adds the velocity to the position, updates
  the angle in the same way from torque and inertia, and stores \<open>body.deltaTime = dt\<close>.
  The body is not one of its own parts after the first.
\<close>

theorem Body_update_integrates:
  assumes "b \<notin> set (tl (parts (s b)))"
    and "body = s b"
    and "dt = d * timeScale body"
    and "c = dt / (if deltaTime body = 0 then dt else deltaTime body)"
    and "f = 1 - frictionAir body * dt / (1000 / 60)"
    and "s' = Body_update s b (Some d)"
  shows "x (velocity (s' b))
        = (x (position body) - x (positionPrev body)) * c * f + (x (force body) / mass body) * dt\<^sup>2
    \<and> y (velocity (s' b))
        = (y (position body) - y (positionPrev body)) * c * f + (y (force body) / mass body) * dt\<^sup>2
    \<and> positionPrev (s' b) = position body
    \<and> x (position (s' b)) = x (position body) + x (velocity (s' b))
    \<and> y (position (s' b)) = y (position body) + y (velocity (s' b))
    \<and> angularVelocity (s' b)
        = (angle body - anglePrev body) * c * f + (torque body / inertia body) * dt\<^sup>2
    \<and> anglePrev (s' b) = angle body
    \<and> angle (s' b) = angle body + angularVelocity (s' b)
    \<and> deltaTime (s' b) = dt"
  using assms by (rule Body_update_fields)

text \<open>
  The theorem at the moving box, one step of \<open>1000 / 60\<close> ms: the velocity is \<open>(1, 0)\<close>
  and the box arrives at \<open>(21, 20)\<close>.
\<close>

theorem Body_update_integrates_witness:
  "0 \<notin> set (tl (parts (movingStore 0)))
   \<and> velocity (Body_update movingStore 0 (Some (1000 / 60)) 0) = \<lparr>x = 1, y = 0\<rparr>
   \<and> position (Body_update movingStore 0 (Some (1000 / 60)) 0) = \<lparr>x = 21, y = 20\<rparr>
   \<and> positionPrev (Body_update movingStore 0 (Some (1000 / 60)) 0) = \<lparr>x = 20, y = 20\<rparr>
   \<and> deltaTime (Body_update movingStore 0 (Some (1000 / 60)) 0) = 1000 / 60"
proof -
  have h: "0 \<notin> set (tl (parts (movingStore 0)))"
    by (simp add: movingStore_def boxStore_def box40_def)
  from Body_update_integrates [where s = movingStore and b = 0 and d = "1000 / 60",
      OF h refl refl refl refl refl] h
  show ?thesis
    by (simp add: movingStore_def boxStore_def box40_def)
qed

text \<open>
  The claim as it was stated takes \<open>c = dt / body.deltaTime\<close> for every body.  On the box
  whose stored \<^verbatim>\<open>deltaTime\<close> is zero the code divides by the step itself: with
  \<open>d = 1\<close> the velocity it computes is 1 along \<open>x\<close>, the last displacement.  The stated
  formula divides by zero there and does not give 1 (the quotient is 0 in the model and
  infinite in IEEE arithmetic).
\<close>

theorem Body_update_zero_deltaTime_counterexample:
  "x (velocity (Body_update restartedStore 0 (Some 1) 0)) = 1
   \<and> (x (position (restartedStore 0)) - x (positionPrev (restartedStore 0)))
       * (1 * timeScale (restartedStore 0) / deltaTime (restartedStore 0))
       * (1 - frictionAir (restartedStore 0) * (1 * timeScale (restartedStore 0)) / (1000 / 60))
     + (x (force (restartedStore 0)) / mass (restartedStore 0))
       * (1 * timeScale (restartedStore 0))\<^sup>2 \<noteq> 1"
proof -
  have h: "0 \<notin> set (tl (parts (restartedStore 0)))"
    by (simp add: restartedStore_def boxStore_def box40_def)
  from Body_update_fields [where s = restartedStore and b = 0 and d = 1,
      OF h refl refl refl refl refl]
  show ?thesis
    by (simp add: restartedStore_def boxStore_def box40_def)
qed

section \<open>Resolver.postSolvePosition\<close>

lemma postSolvePosition_part_eq:
  "postSolvePosition_part b d p s = s(p := translated d (velocity (s b)) (s p))"
  by (cases "s p") (simp add: postSolvePosition_part_def translated_def Let_def)

lemma fold_postSolvePosition_part:
  assumes "distinct ps"
  shows "fold (postSolvePosition_part b d) ps s a
     = (if a \<in> set ps then translated d (velocity (s b)) (s a) else s a)"
  using assms
proof (induction ps arbitrary: s)
  case Nil
  then show ?case by simp
next
  case (Cons p ps)
  have v: "velocity (postSolvePosition_part b d p s b) = velocity (s b)"
    by (simp add: postSolvePosition_part_eq)
  from Cons.prems have d: "distinct ps" and np: "p \<notin> set ps" by simp_all
  have "fold (postSolvePosition_part b d) (p # ps) s a
      = fold (postSolvePosition_part b d) ps (postSolvePosition_part b d p s) a"
    by simp
  also have "\<dots> = (if a \<in> set ps
      then translated d (velocity (s b)) (postSolvePosition_part b d p s a)
      else postSolvePosition_part b d p s a)"
    by (simp only: Cons.IH [OF d] v)
  also have "\<dots> = (if a \<in> set (p # ps) then translated d (velocity (s b)) (s a) else s a)"
    using np by (cases "a = p") (simp_all add: postSolvePosition_part_eq)
  finally show ?case .
qed

lemma fold_postSolvePosition_part_frame:
  "a \<notin> set ps \<Longrightarrow> fold (postSolvePosition_part b d) ps s a = s a"
  by (induction ps arbitrary: s) (simp_all add: postSolvePosition_part_eq)

lemma fold_postSolvePosition_part_parts:
  "parts (fold (postSolvePosition_part b d) ps s a) = parts (s a)"
  by (induction ps arbitrary: s) (simp_all add: postSolvePosition_part_eq translated_def)

lemma postSolvePosition_body_eq:
  assumes "distinct (parts (s b))" and "b \<in> set (parts (s b))"
    and "x (positionImpulse (s b)) \<noteq> 0 \<or> y (positionImpulse (s b)) \<noteq> 0"
  shows "postSolvePosition_body b s a =
     (if a = b
      then (translated (positionImpulse (s b)) (velocity (s b))
              (shifted (positionImpulse (s b)) (s b)))
             \<lparr>totalContacts := 0, positionImpulse := warmed (s b)\<rparr>
      else if a \<in> set (parts (s b))
           then translated (positionImpulse (s b)) (velocity (s b)) (s a)
           else s a)"
  using assms
  by (auto simp add: postSolvePosition_body_def Let_def fold_postSolvePosition_part
      translated_def shifted_def warmed_def)

lemma postSolvePosition_body_frame:
  assumes "a \<noteq> c" and "a \<notin> set (parts (s c))"
  shows "postSolvePosition_body c s a = s a"
  using assms
  by (simp add: postSolvePosition_body_def Let_def fold_postSolvePosition_part_frame)

lemma postSolvePosition_body_parts:
  "parts (postSolvePosition_body c s a) = parts (s a)"
  by (simp add: postSolvePosition_body_def Let_def fold_postSolvePosition_part_parts)

lemma fold_postSolvePosition_body_parts:
  "parts (fold postSolvePosition_body cs s a) = parts (s a)"
  by (induction cs arbitrary: s) (simp_all add: postSolvePosition_body_parts)

lemma fold_postSolvePosition_body_frame:
  assumes "\<forall>c \<in> set cs. a \<noteq> c \<and> a \<notin> set (parts (s c))"
  shows "fold postSolvePosition_body cs s a = s a"
  using assms
proof (induction cs arbitrary: s)
  case Nil
  then show ?case by simp
next
  case (Cons c cs)
  have "\<forall>c' \<in> set cs. a \<noteq> c' \<and> a \<notin> set (parts (postSolvePosition_body c s c'))"
    using Cons.prems by (simp add: postSolvePosition_body_parts)
  then have "fold postSolvePosition_body cs (postSolvePosition_body c s) a
      = postSolvePosition_body c s a"
    by (rule Cons.IH)
  also have "\<dots> = s a"
    using Cons.prems by (simp add: postSolvePosition_body_frame)
  finally show ?case by simp
qed

lemma postSolvePosition_body_local:
  assumes "distinct (parts (s b))" and "b \<in> set (parts (s b))"
    and "x (positionImpulse (s b)) \<noteq> 0 \<or> y (positionImpulse (s b)) \<noteq> 0"
    and "\<forall>a \<in> set (parts (s b)). t a = s a"
    and "a \<in> set (parts (s b))"
  shows "postSolvePosition_body b t a = postSolvePosition_body b s a"
proof -
  have tb: "t b = s b" using assms(2,4) by blast
  have ta: "t a = s a" using assms(4,5) by blast
  have 1: "distinct (parts (t b))" "b \<in> set (parts (t b))"
    "x (positionImpulse (t b)) \<noteq> 0 \<or> y (positionImpulse (t b)) \<noteq> 0"
    using assms(1,2,3) by (simp_all add: tb)
  show ?thesis
    unfolding postSolvePosition_body_eq [where s = t and b = b, OF 1]
      postSolvePosition_body_eq [where s = s and b = b, OF assms(1,2,3)]
    by (simp add: tb ta)
qed

lemma Resolver_postSolvePosition_at:
  assumes "b \<in> set bodyList" and "distinct bodyList"
    and "distinct (parts (s b))" and "b \<in> set (parts (s b))"
    and "\<forall>c \<in> set bodyList. c \<noteq> b \<longrightarrow>
           c \<notin> set (parts (s b)) \<and> (\<forall>p \<in> set (parts (s c)). p \<notin> set (parts (s b)))"
    and "x (positionImpulse (s b)) \<noteq> 0 \<or> y (positionImpulse (s b)) \<noteq> 0"
    and "a \<in> set (parts (s b))"
  shows "Resolver_postSolvePosition s bodyList a = postSolvePosition_body b s a"
proof -
  obtain pre post where split: "bodyList = pre @ b # post"
    using assms(1) by (auto simp: in_set_conv_decomp)
  have npre: "b \<notin> set pre" and npost: "b \<notin> set post"
    using assms(2) split by auto
  define s1 where "s1 = fold postSolvePosition_body pre s"
  define s2 where "s2 = postSolvePosition_body b s1"
  have other: "c \<noteq> b \<and> c \<notin> set (parts (s b)) \<and> (\<forall>p \<in> set (parts (s c)). p \<notin> set (parts (s b)))"
    if "c \<in> set pre \<or> c \<in> set post" for c
    using that assms(5) split npre npost by auto
  have pre_frame: "s1 a' = s a'" if "a' \<in> set (parts (s b))" for a'
    unfolding s1_def
    using that other by (intro fold_postSolvePosition_body_frame) blast
  have s2a: "s2 a = postSolvePosition_body b s a"
    unfolding s2_def
    using postSolvePosition_body_local [where s = s and b = b and t = s1 and a = a, OF assms(3,4,6)]
      pre_frame assms(7) by blast
  have parts2: "parts (s2 c) = parts (s c)" for c
    by (simp add: s2_def s1_def postSolvePosition_body_parts fold_postSolvePosition_body_parts)
  have "fold postSolvePosition_body post s2 a = s2 a"
    using other assms(7) by (intro fold_postSolvePosition_body_frame) (auto simp: parts2)
  moreover have "Resolver_postSolvePosition s bodyList = fold postSolvePosition_body post s2"
    by (simp add: Resolver_postSolvePosition_def split s1_def s2_def)
  ultimately show ?thesis by (simp add: s2a)
qed

text \<open>
  A body that is one of its own parts: \<^verbatim>\<open>Resolver.postSolvePosition\<close> adds a non-zero
  \<^verbatim>\<open>positionImpulse\<close> to position and previous position and translates the vertices
  of every part, so the difference of position and previous position is unchanged.  The
  processed bodies are distinct, no part is listed twice, no other processed body is or
  shares one of the parts; the bounds are the translated ones when they were the bounds
  of the vertices under the body's velocity.
\<close>

lemma postSolvePosition_own_part:
  assumes "b \<in> set bodyList" and "distinct bodyList"
    and "distinct (parts (s b))" and "b \<in> set (parts (s b))"
    and "\<forall>c \<in> set bodyList. c \<noteq> b \<longrightarrow>
           c \<notin> set (parts (s b)) \<and> (\<forall>p \<in> set (parts (s c)). p \<notin> set (parts (s b)))"
    and "bounds_in_sync s b"
    and "x (positionImpulse (s b)) \<noteq> 0 \<or> y (positionImpulse (s b)) \<noteq> 0"
    and "s' = Resolver_postSolvePosition s bodyList"
    and "impulse = positionImpulse (s b)"
  shows "position (s' b) = \<lparr>x = x (position (s b)) + x impulse, y = y (position (s b)) + y impulse\<rparr>
    \<and> positionPrev (s' b)
        = \<lparr>x = x (positionPrev (s b)) + x impulse, y = y (positionPrev (s b)) + y impulse\<rparr>
    \<and> (\<forall>p \<in> set (parts (s b)).
          vertices (s' p) = Vertices_translate (vertices (s p)) impulse 1
          \<and> bounds (s' p) = Bounds_translate (bounds (s p)) impulse)
    \<and> x (position (s' b)) - x (positionPrev (s' b)) = x (position (s b)) - x (positionPrev (s b))
    \<and> y (position (s' b)) - y (positionPrev (s' b)) = y (position (s b)) - y (positionPrev (s b))"
proof -
  have at: "s' a = postSolvePosition_body b s a" if "a \<in> set (parts (s b))" for a
    unfolding assms(8)
    using Resolver_postSolvePosition_at [where s = s and b = b and a = a, OF assms(1,2,3,4,5,7)] that
    by blast
  note eq = postSolvePosition_body_eq [where s = s and b = b, OF assms(3,4,7)]
  have sb: "s' b = (translated impulse (velocity (s b)) (shifted impulse (s b)))
             \<lparr>totalContacts := 0, positionImpulse := warmed (s b)\<rparr>"
    using at [OF assms(4)] by (simp add: eq assms(9))
  have pos: "position (s' b) = \<lparr>x = x (position (s b)) + x impulse, y = y (position (s b)) + y impulse\<rparr>"
    by (simp add: sb translated_def shifted_def)
  have prev: "positionPrev (s' b)
        = \<lparr>x = x (positionPrev (s b)) + x impulse, y = y (positionPrev (s b)) + y impulse\<rparr>"
    by (simp add: sb translated_def shifted_def)
  have prt: "vertices (s' p) = Vertices_translate (vertices (s p)) impulse 1
          \<and> bounds (s' p) = Bounds_translate (bounds (s p)) impulse" if p: "p \<in> set (parts (s b))" for p
  proof -
    have sync: "bounds (s p) = Bounds_update (vertices (s p)) (Some (velocity (s b)))"
      using assms(6) p by (simp add: bounds_in_sync_def)
    show ?thesis
    proof (cases "p = b")
      case True
      then show ?thesis
        using sync by (simp add: sb translated_def shifted_def Bounds_update_translate)
    next
      case False
      then have "s' p = translated impulse (velocity (s b)) (s p)"
        using at [OF p] p by (simp add: eq assms(9))
      then show ?thesis
        using sync by (simp add: translated_def Bounds_update_translate)
    qed
  qed
  show ?thesis using pos prev prt by simp
qed

text \<open>
  The lemma at a store where the box of address 0 carries the impulse \<open>(3, 4)\<close> and
  the boxes 0 and 1 are processed: the box moves from \<open>(20, 20)\<close> to \<open>(23, 24)\<close>, its
  previous position with it.
\<close>

lemma postSolvePosition_own_part_example:
  "position (Resolver_postSolvePosition impulseStore [0, 1] 0) = \<lparr>x = 23, y = 24\<rparr>
   \<and> positionPrev (Resolver_postSolvePosition impulseStore [0, 1] 0) = \<lparr>x = 23, y = 24\<rparr>
   \<and> bounds (Resolver_postSolvePosition impulseStore [0, 1] 0)
       = \<lparr>min' = \<lparr>x = Num 3, y = Num 4\<rparr>, max' = \<lparr>x = Num 43, y = Num 44\<rparr>\<rparr>"
proof -
  have h1: "0 \<in> set [0, 1::nat]" "distinct [0, 1::nat]" by simp_all
  have h2: "distinct (parts (impulseStore 0))" "0 \<in> set (parts (impulseStore 0))"
    by (simp_all add: impulseStore_def boxStore_def box40_def)
  have h3: "\<forall>c \<in> set [0, 1::nat]. c \<noteq> 0 \<longrightarrow>
      c \<notin> set (parts (impulseStore 0))
      \<and> (\<forall>p \<in> set (parts (impulseStore c)). p \<notin> set (parts (impulseStore 0)))"
    by (simp add: impulseStore_def boxStore_def box40_def)
  have h4: "bounds_in_sync impulseStore 0"
    by (simp add: bounds_in_sync_def impulseStore_def boxStore_def box40_def Bounds_update_def
        Bounds_update_vertex_def Vertices_create_def square40_def Let_def)
  have h5: "x (positionImpulse (impulseStore 0)) \<noteq> 0 \<or> y (positionImpulse (impulseStore 0)) \<noteq> 0"
    by (simp add: impulseStore_def)
  from postSolvePosition_own_part [where s = impulseStore and b = 0 and bodyList = "[0, 1]",
      OF h1 h2 h3 h4 h5 refl refl] h2
  show ?thesis
    by (simp add: impulseStore_def boxStore_def box40_def Bounds_translate_def)
qed

text \<open>
  Claim C8: for every body that \<^verbatim>\<open>Resolver.postSolvePosition\<close> processes with a
  non-zero \<^verbatim>\<open>positionImpulse\<close>, the impulse is added to position and previous
  position (and the vertices and bounds are translated), so the difference of position
  and previous position, the velocity the body implies, is unchanged.  The function
  moves the position in its loop over \<^verbatim>\<open>body.parts\<close>, and a body that
  \<^verbatim>\<open>Body.create\<close> has built has no parts: for the body of
  \<^verbatim>\<open>Bodies.rectangle(20, 20, 40, 40)\<close> with the impulse \<open>(3, 4)\<close> the previous position
  moves from the origin to \<open>(3, 4)\<close>, and position, vertices and bounds stay where they
  are.  The implied velocity changes from \<open>(20, 20)\<close> to \<open>(17, 16)\<close>.
\<close>

theorem postSolvePosition_created_body:
  "position (createdImpulseStore 0) = \<lparr>x = 20, y = 20\<rparr>
   \<and> positionPrev (createdImpulseStore 0) = \<lparr>x = 0, y = 0\<rparr>
   \<and> positionImpulse (createdImpulseStore 0) = \<lparr>x = 3, y = 4\<rparr>
   \<and> position (Resolver_postSolvePosition createdImpulseStore [0] 0) = \<lparr>x = 20, y = 20\<rparr>
   \<and> positionPrev (Resolver_postSolvePosition createdImpulseStore [0] 0) = \<lparr>x = 3, y = 4\<rparr>
   \<and> vertices (Resolver_postSolvePosition createdImpulseStore [0] 0) = vertices (createdImpulseStore 0)
   \<and> bounds (Resolver_postSolvePosition createdImpulseStore [0] 0) = bounds (createdImpulseStore 0)
   \<and> x (position (Resolver_postSolvePosition createdImpulseStore [0] 0))
       - x (positionPrev (Resolver_postSolvePosition createdImpulseStore [0] 0)) = 17
   \<and> x (position (createdImpulseStore 0)) - x (positionPrev (createdImpulseStore 0)) = 20"
  by (simp add: Resolver_postSolvePosition_def postSolvePosition_body_def Let_def
      createdImpulseStore_def createdStore_def Bodies_rectangle_def)

section \<open>Body.setPosition\<close>

lemma setPosition_part_eq:
  "setPosition_part b d p s = s(p := translated d (velocity (s b)) (s p))"
  by (simp add: setPosition_part_def translated_def Let_def)

lemma fold_setPosition_part:
  assumes "distinct ps"
  shows "fold (setPosition_part b d) ps s a
     = (if a \<in> set ps then translated d (velocity (s b)) (s a) else s a)"
  using assms
proof (induction ps arbitrary: s)
  case Nil
  then show ?case by simp
next
  case (Cons p ps)
  have v: "velocity (setPosition_part b d p s b) = velocity (s b)"
    by (simp add: setPosition_part_eq)
  from Cons.prems have d: "distinct ps" and np: "p \<notin> set ps" by simp_all
  have at: "setPosition_part b d p s a = (if a = p then translated d (velocity (s b)) (s a) else s a)"
    by (simp add: setPosition_part_eq)
  have "fold (setPosition_part b d) (p # ps) s a = fold (setPosition_part b d) ps (setPosition_part b d p s) a"
    by simp
  also have "\<dots> = (if a \<in> set ps then translated d (velocity (s b)) (setPosition_part b d p s a)
      else setPosition_part b d p s a)"
    by (simp only: Cons.IH [OF d] v)
  also have "\<dots> = (if a \<in> set (p # ps) then translated d (velocity (s b)) (s a) else s a)"
    using np by (cases "a = p") (simp_all add: setPosition_part_eq)
  finally show ?case .
qed

lemma Body_setPosition_eq:
  assumes "distinct (parts (s b))" and "b \<in> set (parts (s b))"
    and "d = Vector_sub p (position (s b))"
  shows "Body_setPosition s b p False a =
     (if a = b then translated d (velocity (s b)) (shifted d (s b))
      else if a \<in> set (parts (s b)) then translated d (velocity (s b)) (s a)
      else s a)"
  using assms
  by (simp add: Body_setPosition_def Let_def fold_setPosition_part shifted_def)

text \<open>
  A body that is one of its own parts, with no part listed twice:
  \<^verbatim>\<open>Body.setPosition(body, p)\<close> followed by \<^verbatim>\<open>Body.setPosition(body, q)\<close>, both
  without \<^verbatim>\<open>updateVelocity\<close>, leaves the same store as \<^verbatim>\<open>Body.setPosition(body, q)\<close>
  alone.
\<close>

lemma setPosition_twice_own_part:
  assumes "distinct (parts (s b))" and "b \<in> set (parts (s b))"
  shows "Body_setPosition (Body_setPosition s b p False) b q False = Body_setPosition s b q False"
proof
  fix a
  define d1 where "d1 = Vector_sub p (position (s b))"
  define d2 where "d2 = Vector_sub q p"
  define d3 where "d3 = Vector_sub q (position (s b))"
  define vel where "vel = velocity (s b)"
  define s1 where "s1 = Body_setPosition s b p False"
  have s1: "s1 a' = (if a' = b then translated d1 vel (shifted d1 (s b))
      else if a' \<in> set (parts (s b)) then translated d1 vel (s a') else s a')" for a'
    unfolding s1_def vel_def by (rule Body_setPosition_eq [where s = s and b = b, OF assms d1_def])
  have parts1: "parts (s1 b) = parts (s b)"
    by (simp add: s1 translated_fields shifted_fields)
  have pos1: "position (s1 b) = p"
    by (simp add: s1 translated_fields shifted_fields d1_def Vector_sub_def)
  have vel1: "velocity (s1 b) = vel"
    by (simp add: s1 shifted_fields vel_def)
  have d2: "d2 = Vector_sub q (position (s1 b))" by (simp add: d2_def pos1)
  have s2: "Body_setPosition s1 b q False a = (if a = b then translated d2 vel (shifted d2 (s1 b))
      else if a \<in> set (parts (s b)) then translated d2 vel (s1 a) else s1 a)"
    using Body_setPosition_eq [where s = s1 and b = b and d = d2 and p = q and a = a] assms d2
    by (simp add: parts1 vel1)
  have s3: "Body_setPosition s b q False a = (if a = b then translated d3 vel (shifted d3 (s b))
      else if a \<in> set (parts (s b)) then translated d3 vel (s a) else s a)"
    unfolding vel_def by (rule Body_setPosition_eq [where s = s and b = b, OF assms d3_def])
  have sum: "\<lparr>x = x d1 + x d2, y = y d1 + y d2\<rparr> = d3"
    by (simp add: d1_def d2_def d3_def Vector_sub_def)
  show "Body_setPosition (Body_setPosition s b p False) b q False a = Body_setPosition s b q False a"
    unfolding s1_def [symmetric] s2 s3
    by (simp add: s1 shifted_translated translated_twice shifted_twice sum)
qed

text \<open>The lemma at the box of address 0, moved to \<open>(30, 20)\<close> and then to \<open>(50, 60)\<close>.\<close>

lemma setPosition_twice_own_part_example:
  "distinct (parts (boxStore 0)) \<and> 0 \<in> set (parts (boxStore 0))
   \<and> Body_setPosition (Body_setPosition boxStore 0 \<lparr>x = 30, y = 20\<rparr> False) 0
         \<lparr>x = 50, y = 60\<rparr> False
       = Body_setPosition boxStore 0 \<lparr>x = 50, y = 60\<rparr> False"
proof -
  have h: "distinct (parts (boxStore 0))" "0 \<in> set (parts (boxStore 0))"
    by (simp_all add: boxStore_def box40_def)
  from setPosition_twice_own_part [where s = boxStore and b = 0, OF h] h show ?thesis by simp
qed

text \<open>
  Claim C9: for every body and points \<open>p\<close>, \<open>q\<close>, \<^verbatim>\<open>Body.setPosition(body, p)\<close> followed
  by \<^verbatim>\<open>Body.setPosition(body, q)\<close> leaves the same final state as
  \<^verbatim>\<open>Body.setPosition(body, q)\<close> alone.  The function moves the position in its loop
  over \<^verbatim>\<open>body.parts\<close> and shifts the previous position by the distance to the target;
  a body that \<^verbatim>\<open>Body.create\<close> has built has no parts, so its position never moves
  and every call shifts the previous position again.  For the body of
  \<^verbatim>\<open>Bodies.rectangle(20, 20, 40, 40)\<close>, \<open>p = (30, 30)\<close> and \<open>q = (50, 60)\<close>: after
  \<open>p\<close> and \<open>q\<close> the previous position is \<open>(40, 50)\<close>, after \<open>q\<close> alone it is
  \<open>(30, 40)\<close>, and the position is \<open>(20, 20)\<close> in both.
\<close>

theorem setPosition_created_body:
  "positionPrev (Body_setPosition (Body_setPosition createdStore 0 \<lparr>x = 30, y = 30\<rparr> False) 0
        \<lparr>x = 50, y = 60\<rparr> False 0) = \<lparr>x = 40, y = 50\<rparr>
   \<and> positionPrev (Body_setPosition createdStore 0 \<lparr>x = 50, y = 60\<rparr> False 0) = \<lparr>x = 30, y = 40\<rparr>
   \<and> position (Body_setPosition (Body_setPosition createdStore 0 \<lparr>x = 30, y = 30\<rparr> False) 0
        \<lparr>x = 50, y = 60\<rparr> False 0) = \<lparr>x = 20, y = 20\<rparr>
   \<and> position (Body_setPosition createdStore 0 \<lparr>x = 50, y = 60\<rparr> False 0) = \<lparr>x = 20, y = 20\<rparr>
   \<and> Body_setPosition (Body_setPosition createdStore 0 \<lparr>x = 30, y = 30\<rparr> False) 0
        \<lparr>x = 50, y = 60\<rparr> False
       \<noteq> Body_setPosition createdStore 0 \<lparr>x = 50, y = 60\<rparr> False"
proof -
  have 1: "positionPrev (Body_setPosition (Body_setPosition createdStore 0 \<lparr>x = 30, y = 30\<rparr> False) 0
        \<lparr>x = 50, y = 60\<rparr> False 0) = \<lparr>x = 40, y = 50\<rparr>"
    by (simp add: Body_setPosition_def Let_def Vector_sub_def createdStore_def Bodies_rectangle_def)
  have 2: "positionPrev (Body_setPosition createdStore 0 \<lparr>x = 50, y = 60\<rparr> False 0) = \<lparr>x = 30, y = 40\<rparr>"
    by (simp add: Body_setPosition_def Let_def Vector_sub_def createdStore_def Bodies_rectangle_def)
  have 3: "position (Body_setPosition (Body_setPosition createdStore 0 \<lparr>x = 30, y = 30\<rparr> False) 0
        \<lparr>x = 50, y = 60\<rparr> False 0) = \<lparr>x = 20, y = 20\<rparr>"
    by (simp add: Body_setPosition_def Let_def Vector_sub_def createdStore_def Bodies_rectangle_def)
  have 4: "position (Body_setPosition createdStore 0 \<lparr>x = 50, y = 60\<rparr> False 0) = \<lparr>x = 20, y = 20\<rparr>"
    by (simp add: Body_setPosition_def Let_def Vector_sub_def createdStore_def Bodies_rectangle_def)
  have "Body_setPosition (Body_setPosition createdStore 0 \<lparr>x = 30, y = 30\<rparr> False) 0
        \<lparr>x = 50, y = 60\<rparr> False
       \<noteq> Body_setPosition createdStore 0 \<lparr>x = 50, y = 60\<rparr> False"
  proof
    assume "Body_setPosition (Body_setPosition createdStore 0 \<lparr>x = 30, y = 30\<rparr> False) 0
        \<lparr>x = 50, y = 60\<rparr> False = Body_setPosition createdStore 0 \<lparr>x = 50, y = 60\<rparr> False"
    then have "positionPrev (Body_setPosition (Body_setPosition createdStore 0 \<lparr>x = 30, y = 30\<rparr> False) 0
        \<lparr>x = 50, y = 60\<rparr> False 0) = positionPrev (Body_setPosition createdStore 0 \<lparr>x = 50, y = 60\<rparr> False 0)"
      by simp
    then show False unfolding 1 2 by simp
  qed
  with 1 2 3 4 show ?thesis by simp
qed

section \<open>Vertices.contains on the boundary\<close>

lemma contains_loop_iff:
  "contains_loop v vs p \<longleftrightarrow>
     (\<forall>e \<in> set (zip (v # butlast vs) vs). edge_cross (fst e) (snd e) p \<le> 0)"
proof (induction vs arbitrary: v)
  case Nil
  then show ?case by simp
next
  case (Cons n rest)
  show ?case
  proof (cases rest)
    case Nil
    then show ?thesis by (simp add: edge_cross_def not_less)
  next
    case (Cons r rs)
    then have "butlast (n # rest) = n # butlast rest" by simp
    then show ?thesis using Cons.IH [of n] by (auto simp add: edge_cross_def not_less)
  qed
qed

text \<open>The test accepts exactly the points that no directed edge has strictly on its right.\<close>

lemma Vertices_contains_iff:
  "Vertices_contains vs p \<longleftrightarrow>
     (\<forall>e \<in> set (ring_edges vs). edge_cross (fst e) (snd e) p \<le> 0)"
  by (cases vs)
     (simp_all add: Vertices_contains_def ring_edges_def contains_loop_iff del: contains_loop.simps)

lemma on_edge_param:
  assumes "on_edge a b p"
  shows "\<exists>t. 0 \<le> t \<and> t \<le> 1 \<and> x p = x a + t * (x b - x a) \<and> y p = y a + t * (y b - y a)"
proof (cases "x a = x b")
  case False
  define t where "t = (x p - x a) / (x b - x a)"
  from False have d: "x b - x a \<noteq> 0" by simp
  have c: "(x p - x a) * (y b - y a) = (y p - y a) * (x b - x a)"
    using assms by (simp add: on_edge_def edge_cross_def algebra_simps)
  have t01: "0 \<le> t \<and> t \<le> 1"
    using assms False unfolding t_def on_edge_def
    by (cases "x a < x b") (auto simp: min_def max_def field_simps split: if_splits)
  have xp: "x p = x a + t * (x b - x a)" using d by (simp add: t_def)
  have "t * (y b - y a) * (x b - x a) = (y p - y a) * (x b - x a)"
    using c d by (simp add: t_def)
  then have "t * (y b - y a) = y p - y a" using d by simp
  then have "y p = y a + t * (y b - y a)" by simp
  with t01 xp show ?thesis by blast
next
  case True
  note xeq = True
  show ?thesis
  proof (cases "y a = y b")
    case True
    with xeq assms have "x p = x a" "y p = y a" by (auto simp: on_edge_def)
    then show ?thesis by (intro exI [of _ 0]) simp
  next
    case False
    define t where "t = (y p - y a) / (y b - y a)"
    from False have d: "y b - y a \<noteq> 0" by simp
    have t01: "0 \<le> t \<and> t \<le> 1"
      using assms False unfolding t_def on_edge_def
      by (cases "y a < y b") (auto simp: min_def max_def field_simps split: if_splits)
    have yp: "y p = y a + t * (y b - y a)" using d by (simp add: t_def)
    have "x p = x a" using assms xeq by (auto simp: on_edge_def)
    with xeq have "x p = x a + t * (x b - x a)" by simp
    with t01 yp show ?thesis by blast
  qed
qed

lemma edge_cross_affine:
  assumes "x p = x a + t * (x b - x a)" "y p = y a + t * (y b - y a)"
  shows "edge_cross c d p = (1 - t) * edge_cross c d a + t * edge_cross c d b"
  unfolding edge_cross_def assms by (simp add: algebra_simps)

lemma ring_edges_mem:
  assumes "e \<in> set (ring_edges vs)"
  shows "fst e \<in> set vs \<and> snd e \<in> set vs"
proof (cases vs)
  case Nil
  with assms show ?thesis by (simp add: ring_edges_def)
next
  case (Cons v rest)
  then have ne: "vs \<noteq> []" by simp
  have e: "e \<in> set (zip (last vs # butlast vs) vs)"
    using assms Cons by (simp add: ring_edges_def)
  have "fst e \<in> set (last vs # butlast vs)" "snd e \<in> set vs"
    using e by (metis prod.collapse set_zip_leftD, metis prod.collapse set_zip_rightD)
  moreover have "set (last vs # butlast vs) \<subseteq> set vs"
    using ne by (auto dest: in_set_butlastD)
  ultimately show ?thesis by blast
qed

text \<open>
  Claim C10, as amended: for every convex clockwise vertex list and every point that lies
  on one of its directed edges, \<^verbatim>\<open>Vertices.contains\<close> returns true: the boundary of a
  convex ring is inside.
\<close>

theorem Vertices_contains_boundary:
  assumes "convex_clockwise vs" and "e \<in> set (ring_edges vs)" and "on_edge (fst e) (snd e) p"
  shows "Vertices_contains vs p"
  unfolding Vertices_contains_iff
proof
  fix f assume f: "f \<in> set (ring_edges vs)"
  obtain t where t: "0 \<le> t" "t \<le> 1" "x p = x (fst e) + t * (x (snd e) - x (fst e))"
    "y p = y (fst e) + t * (y (snd e) - y (fst e))"
    using on_edge_param [OF assms(3)] by blast
  have mem: "fst e \<in> set vs" "snd e \<in> set vs"
    using ring_edges_mem [OF assms(2)] by simp_all
  have "edge_cross (fst f) (snd f) (fst e) \<le> 0" "edge_cross (fst f) (snd f) (snd e) \<le> 0"
    using assms(1) f mem by (auto simp: convex_clockwise_def)
  then have "(1 - t) * edge_cross (fst f) (snd f) (fst e)
      + t * edge_cross (fst f) (snd f) (snd e) \<le> 0"
    using t(1,2) by (simp add: mult_nonneg_nonpos add_nonpos_nonpos)
  moreover have "edge_cross (fst f) (snd f) p
      = (1 - t) * edge_cross (fst f) (snd f) (fst e) + t * edge_cross (fst f) (snd f) (snd e)"
    by (rule edge_cross_affine [OF t(3,4)])
  ultimately show "edge_cross (fst f) (snd f) p \<le> 0" by linarith
qed

text \<open>
  The theorem at the default square: the midpoint \<open>(20, 0)\<close> of its first edge is
  contained.
\<close>

theorem Vertices_contains_boundary_witness:
  "convex_clockwise square40
   \<and> (\<lparr>x = 0, y = 0\<rparr>, \<lparr>x = 40, y = 0\<rparr>) \<in> set (ring_edges square40)
   \<and> on_edge \<lparr>x = 0, y = 0::real\<rparr> \<lparr>x = 40, y = 0::real\<rparr> \<lparr>x = 20, y = 0::real\<rparr>
   \<and> Vertices_contains square40 \<lparr>x = 20, y = 0::real\<rparr>"
proof -
  have c: "convex_clockwise square40"
    by (simp add: convex_clockwise_def square40_def ring_edges_def edge_cross_def)
  have e: "(\<lparr>x = 0, y = 0\<rparr>, \<lparr>x = 40, y = 0\<rparr>) \<in> set (ring_edges square40)"
    by (simp add: square40_def ring_edges_def)
  have o: "on_edge (fst (\<lparr>x = 0, y = 0::real\<rparr>, \<lparr>x = 40, y = 0::real\<rparr>))
             (snd (\<lparr>x = 0, y = 0::real\<rparr>, \<lparr>x = 40, y = 0::real\<rparr>)) \<lparr>x = 20, y = 0::real\<rparr>"
    by (simp add: on_edge_def edge_cross_def)
  from Vertices_contains_boundary [OF c e o] c e o show ?thesis by simp
qed

text \<open>
  The claim as it was stated, for every clockwise vertex list, fails on a ring that is
  not convex: the L-shaped ring is clockwise, the point \<open>(1/2, 2)\<close> lies on its edge from
  \<open>(1, 2)\<close> to \<open>(0, 2)\<close>, and \<^verbatim>\<open>Vertices.contains\<close> returns false, because the point is
  strictly on the right of the edge from \<open>(2, 1)\<close> to \<open>(1, 1)\<close>.
\<close>

theorem Vertices_contains_nonconvex_counterexample:
  "clockwise Lshape
   \<and> (\<lparr>x = 1, y = 2\<rparr>, \<lparr>x = 0, y = 2\<rparr>) \<in> set (ring_edges Lshape)
   \<and> on_edge \<lparr>x = 1, y = 2::real\<rparr> \<lparr>x = 0, y = 2::real\<rparr> \<lparr>x = 1 / 2, y = 2::real\<rparr>
   \<and> \<not> Vertices_contains Lshape \<lparr>x = 1 / 2, y = 2::real\<rparr>"
  by (simp add: clockwise_def Lshape_def Vertices_area_def ring_edges_def on_edge_def
      edge_cross_def Vertices_contains_def)

section \<open>Engine.update and static bodies\<close>




lemma fold_invariant:
  assumes "\<And>a t. a \<in> set xs \<Longrightarrow> P t \<Longrightarrow> P (f a t)" and "P s"
  shows "P (fold f xs s)"
  using assms by (induction xs arbitrary: s) auto

lemma funpow_invariant:
  assumes "\<And>t. P t \<Longrightarrow> P (f t)" and "P s"
  shows "P ((f ^^ n) s)"
  using assms by (induction n) auto

lemma repeat_invariant:
  assumes "\<And>t t'. P t \<Longrightarrow> f t = Inr t' \<Longrightarrow> P t'" and "P st" and "repeat n f st = Inr st'"
  shows "P st'"
  using assms(2,3)
proof (induction n arbitrary: st)
  case 0
  then show ?case by simp
next
  case (Suc n)
  then obtain st1 where 1: "f st = Inr st1" and 2: "repeat n f st1 = Inr st'"
    by (auto split: sum.splits)
  from assms(1) [OF Suc.prems(1) 1] have "P st1" .
  then show ?case using 2 by (rule Suc.IH)
qed







































































































end
